theory Spec2Isabelle
  imports Complex_Main "HOL-Library.Multiset"
begin

section \<open>Numbers, errors and outcomes\<close>

text \<open>
  Python floats are modelled as \<^typ>\<open>real\<close> (rounding is abstracted away), Python
  integers as \<^typ>\<open>int\<close>.  Every exception the code can raise is a value of
  \<open>error\<close>.  The code raises \<open>ValueError\<close> for an unknown mode, band or state;
  the constructors keep the three messages apart.  \<open>NegativeDimensions\<close> and
  \<open>ZeroSizeReduction\<close> are the \<open>ValueError\<close>s numpy raises for a negative array
  size and for \<open>np.max\<close> of an empty array.
\<close>

datatype error =
    InvalidMode string
  | UnknownBand string
  | UnknownState string
  | ZeroDivisionError
  | TypeError
  | NegativeDimensions
  | ZeroSizeReduction

text \<open>
  A call either returns a value, raises, or runs forever.  A method mutates its object
  before it raises, so the state reached is part of both outcomes.
\<close>

datatype ('a, 's) result = Returns 'a 's | Raises error 's | Diverges

text \<open>Python's \<open>int(x)\<close> on a float truncates toward zero.\<close>

definition py_int :: "real \<Rightarrow> int" where
  "py_int x = (if 0 \<le> x then \<lfloor>x\<rfloor> else \<lceil>x\<rceil>)"

section \<open>numpy's generators\<close>

text \<open>
  \<open>np.random.RandomState\<close> is not code of this repository.  A generator state is
  modelled by the outputs it is going to deliver: the doubles of \<open>random_sample\<close>
  (each in the unit interval), the standard normal deviates, and the raw integers
  behind \<open>randint\<close>.  Drawing consumes the stream.
\<close>

record RandomState =
  doubles :: "nat \<Rightarrow> real"
  gauss :: "nat \<Rightarrow> real"
  ints :: "nat \<Rightarrow> nat"

definition skip_doubles :: "nat \<Rightarrow> RandomState \<Rightarrow> RandomState" where
  "skip_doubles n g = g\<lparr>doubles := (\<lambda>k. doubles g (k + n))\<rparr>"

definition skip_gauss :: "nat \<Rightarrow> RandomState \<Rightarrow> RandomState" where
  "skip_gauss n g = g\<lparr>gauss := (\<lambda>k. gauss g (k + n))\<rparr>"

definition skip_ints :: "nat \<Rightarrow> RandomState \<Rightarrow> RandomState" where
  "skip_ints n g = g\<lparr>ints := (\<lambda>k. ints g (k + n))\<rparr>"

text \<open>\<open>rng.random()\<close>: one double.\<close>

definition random_sample :: "RandomState \<Rightarrow> real \<times> RandomState" where
  "random_sample g = (doubles g 0, skip_doubles 1 g)"

text \<open>\<open>rng.random(n)\<close>: an array of \<open>n\<close> doubles; a negative size raises.\<close>

definition random_samples :: "RandomState \<Rightarrow> int \<Rightarrow> error + (real list \<times> RandomState)" where
  "random_samples g n =
     (if n < 0 then Inl NegativeDimensions
      else Inr (map (doubles g) [0..<nat n], skip_doubles (nat n) g))"

text \<open>\<open>rng.uniform(low, high)\<close> is \<open>low + (high - low) * random_sample()\<close>.\<close>

definition uniform :: "RandomState \<Rightarrow> real \<Rightarrow> real \<Rightarrow> real \<times> RandomState" where
  "uniform g low high = (low + (high - low) * doubles g 0, skip_doubles 1 g)"

text \<open>\<open>rng.uniform(low, high, n)\<close> for a literal size \<open>n\<close>.\<close>

definition uniform_n :: "RandomState \<Rightarrow> real \<Rightarrow> real \<Rightarrow> nat \<Rightarrow> real list \<times> RandomState" where
  "uniform_n g low high n =
     (map (\<lambda>k. low + (high - low) * doubles g k) [0..<n], skip_doubles n g)"

text \<open>\<open>rng.normal(loc, scale, n)\<close> for \<open>scale > 0\<close> and \<open>n \<ge> 0\<close>.\<close>

definition normal :: "RandomState \<Rightarrow> real \<Rightarrow> real \<Rightarrow> nat \<Rightarrow> real list \<times> RandomState" where
  "normal g loc scale n =
     (map (\<lambda>k. loc + scale * gauss g k) [0..<n], skip_gauss n g)"

text \<open>
  \<open>randint(low, high)\<close> for \<open>low < high\<close>: an integer in \<open>[low, high)\<close> that
  depends on the generator's state only.
\<close>

definition randint :: "RandomState \<Rightarrow> int \<Rightarrow> int \<Rightarrow> int \<times> RandomState" where
  "randint g low high = (low + int (ints g 0 mod nat (high - low)), skip_ints 1 g)"

text \<open>
  \<open>RandomState(seed)\<close>: \<open>mt\<close> stands for the initialisation from an integer seed,
  \<open>fresh\<close> for the state taken from the operating system when the seed is \<open>None\<close>.
\<close>

definition RandomState_init ::
  "(int \<Rightarrow> RandomState) \<Rightarrow> RandomState \<Rightarrow> int option \<Rightarrow> RandomState" where
  "RandomState_init mt fresh seed = (case seed of None \<Rightarrow> fresh | Some s \<Rightarrow> mt s)"

section \<open>spike\_generator.py\<close>

record SpikeGenerator =
  rng :: RandomState

definition SpikeGenerator_init ::
  "(int \<Rightarrow> RandomState) \<Rightarrow> RandomState \<Rightarrow> int option \<Rightarrow> SpikeGenerator" where
  "SpikeGenerator_init mt fresh seed = \<lparr>rng = RandomState_init mt fresh seed\<rparr>"

text \<open>
  \<open>poisson_spikes\<close>: \<open>duration / dt\<close> raises for \<open>dt = 0\<close>, \<open>rng.random(n_bins)\<close>
  raises for a negative \<open>n_bins\<close>; \<open>np.where(spikes)[0]\<close> is the ascending list of the
  bins whose draw is below \<open>prob\<close>.  The quotient is taken exactly here; the code
  truncates the quotient rounded to a double, so for a positive duration its number of
  bins can be one off that of the model.  No claim below is stated in terms of the
  exact number of bins of a positive duration.
\<close>

definition poisson_spikes ::
  "SpikeGenerator \<Rightarrow> real \<Rightarrow> real \<Rightarrow> real \<Rightarrow> (real list, SpikeGenerator) result" where
  "poisson_spikes self rate duration dt =
     (if dt = 0 then Raises ZeroDivisionError self
      else
        let n_bins = py_int (duration / dt);
            prob = rate * dt
        in case random_samples (rng self) n_bins of
             Inl e \<Rightarrow> Raises e self
           | Inr (us, g) \<Rightarrow>
               Returns (map (\<lambda>i. real i * dt) (filter (\<lambda>i. us ! i < prob) [0..<length us]))
                       (self\<lparr>rng := g\<rparr>))"

text \<open>
  The \<open>while t < duration\<close> loop of \<open>refractory_spikes\<close>.  It does not end when
  \<open>dt \<le> 0 < duration\<close>, so its result is an option and \<open>None\<close> is "never returns".
\<close>

partial_function (option) refractory_loop ::
  "real \<Rightarrow> real \<Rightarrow> real \<Rightarrow> real \<Rightarrow> RandomState \<Rightarrow> real \<Rightarrow> real \<Rightarrow> real list
     \<Rightarrow> (real list \<times> RandomState) option" where
  "refractory_loop rate duration refractory_period dt g t last_spike spike_times =
     (if t < duration then
        (if t - last_spike \<ge> refractory_period then
           (case random_sample g of
              (u, g') \<Rightarrow>
                if u < rate * dt
                then refractory_loop rate duration refractory_period dt g' (t + dt) t
                       (spike_times @ [t])
                else refractory_loop rate duration refractory_period dt g' (t + dt) last_spike
                       spike_times)
         else refractory_loop rate duration refractory_period dt g (t + dt) last_spike
                spike_times)
      else Some (spike_times, g))"

definition refractory_spikes ::
  "SpikeGenerator \<Rightarrow> real \<Rightarrow> real \<Rightarrow> real \<Rightarrow> real \<Rightarrow> (real list, SpikeGenerator) result" where
  "refractory_spikes self rate duration refractory_period dt =
     (case refractory_loop rate duration refractory_period dt (rng self) 0 (- refractory_period) []
      of None \<Rightarrow> Diverges
       | Some (spike_times, g) \<Rightarrow> Returns spike_times (self\<lparr>rng := g\<rparr>))"

text \<open>
  The spikes one burst contributes: \<open>burst_start + i * intraburst_interval\<close> for
  \<open>i\<close> in \<open>range(spikes_per_burst)\<close>, kept when below \<open>duration\<close>.
\<close>

definition burst_of :: "int \<Rightarrow> real \<Rightarrow> real \<Rightarrow> real \<Rightarrow> real list" where
  "burst_of spikes_per_burst duration intraburst_interval burst_start =
     filter (\<lambda>spike_time. spike_time < duration)
       (map (\<lambda>i. burst_start + real i * intraburst_interval) [0..<nat spikes_per_burst])"

definition burst_spikes ::
  "SpikeGenerator \<Rightarrow> real \<Rightarrow> int \<Rightarrow> real \<Rightarrow> real \<Rightarrow> real
     \<Rightarrow> (real list, SpikeGenerator) result" where
  "burst_spikes self burst_rate spikes_per_burst duration intraburst_interval dt =
     (case poisson_spikes self burst_rate duration dt of
        Raises e s \<Rightarrow> Raises e s
      | Diverges \<Rightarrow> Diverges
      | Returns burst_times s \<Rightarrow>
          Returns (sort (concat (map (burst_of spikes_per_burst duration intraburst_interval)
                                     burst_times))) s)"

text \<open>
  The keyword arguments of \<open>generate_spike_train\<close>: the four names the three
  generators know, and the names of any other keywords passed.
\<close>

record kwargs =
  kw_dt :: "real option"
  kw_refractory_period :: "real option"
  kw_spikes_per_burst :: "int option"
  kw_intraburst_interval :: "real option"
  kw_other :: "string list"

definition no_kwargs :: kwargs where
  "no_kwargs = \<lparr>kw_dt = None, kw_refractory_period = None, kw_spikes_per_burst = None,
                 kw_intraburst_interval = None, kw_other = []\<rparr>"

definition or_default :: "'a option \<Rightarrow> 'a \<Rightarrow> 'a" where
  "or_default v d = (case v of None \<Rightarrow> d | Some x \<Rightarrow> x)"

record spike_train =
  neuron_id :: int
  spike_times :: "real list"
  spike_count :: nat
  st_duration :: real
  mode :: string
  firing_rate :: real
  parameters :: kwargs

text \<open>
  The dispatch on \<open>mode\<close>.  A keyword the chosen generator does not take, or a
  missing \<open>spikes_per_burst\<close> in burst mode, is Python's \<open>TypeError\<close>.
\<close>

definition dispatch_mode ::
  "SpikeGenerator \<Rightarrow> real \<Rightarrow> real \<Rightarrow> string \<Rightarrow> kwargs \<Rightarrow> (real list, SpikeGenerator) result" where
  "dispatch_mode self rate duration md kw =
     (if md = ''poisson'' then
        (if kw_refractory_period kw \<noteq> None \<or> kw_spikes_per_burst kw \<noteq> None
            \<or> kw_intraburst_interval kw \<noteq> None \<or> kw_other kw \<noteq> []
         then Raises TypeError self
         else poisson_spikes self rate duration (or_default (kw_dt kw) 0.001))
      else if md = ''refractory'' then
        (if kw_spikes_per_burst kw \<noteq> None \<or> kw_intraburst_interval kw \<noteq> None
            \<or> kw_other kw \<noteq> []
         then Raises TypeError self
         else refractory_spikes self rate duration
                (or_default (kw_refractory_period kw) 0.002) (or_default (kw_dt kw) 0.001))
      else if md = ''burst'' then
        (if kw_refractory_period kw \<noteq> None \<or> kw_other kw \<noteq> [] then Raises TypeError self
         else case kw_spikes_per_burst kw of
                None \<Rightarrow> Raises TypeError self
              | Some spb \<Rightarrow>
                  burst_spikes self rate spb duration
                    (or_default (kw_intraburst_interval kw) 0.005) (or_default (kw_dt kw) 0.001))
      else Raises (InvalidMode md) self)"

definition generate_spike_train ::
  "SpikeGenerator \<Rightarrow> int \<Rightarrow> real \<Rightarrow> real \<Rightarrow> string \<Rightarrow> kwargs
     \<Rightarrow> (spike_train, SpikeGenerator) result" where
  "generate_spike_train self nid rate duration md kw =
     (case dispatch_mode self rate duration md kw of
        Raises e s \<Rightarrow> Raises e s
      | Diverges \<Rightarrow> Diverges
      | Returns ts s \<Rightarrow>
          Returns \<lparr>neuron_id = nid, spike_times = ts, spike_count = length ts,
                   st_duration = duration, mode = md,
                   firing_rate = (if duration > 0 then real (length ts) / duration else 0),
                   parameters = kw\<rparr> s)"

text \<open>
  The loop of \<open>generate_population\<close> over \<open>range(n_neurons)\<close>; \<open>population_data\<close>
  is the list built so far.
\<close>

fun population_loop ::
  "SpikeGenerator \<Rightarrow> int list \<Rightarrow> real \<times> real \<Rightarrow> real \<Rightarrow> string \<Rightarrow> spike_train list
     \<Rightarrow> (spike_train list, SpikeGenerator) result" where
  "population_loop self [] rate_range duration md population_data =
     Returns population_data self"
| "population_loop self (i # is) rate_range duration md population_data =
     (case uniform (rng self) (fst rate_range) (snd rate_range) of
        (rate, g) \<Rightarrow>
          (case generate_spike_train (self\<lparr>rng := g\<rparr>) i rate duration md no_kwargs of
             Raises e s \<Rightarrow> Raises e s
           | Diverges \<Rightarrow> Diverges
           | Returns train s \<Rightarrow>
               population_loop s is rate_range duration md (population_data @ [train])))"

definition generate_population ::
  "SpikeGenerator \<Rightarrow> int \<Rightarrow> real \<times> real \<Rightarrow> real \<Rightarrow> string
     \<Rightarrow> (spike_train list, SpikeGenerator) result" where
  "generate_population self n_neurons rate_range duration md =
     population_loop self (map int [0..<nat n_neurons]) rate_range duration md []"

section \<open>eeg\_generator.py\<close>

record EEGGenerator =
  sampling_rate :: real
  eeg_rng :: RandomState

definition EEGGenerator_init ::
  "(int \<Rightarrow> RandomState) \<Rightarrow> RandomState \<Rightarrow> real \<Rightarrow> int option \<Rightarrow> EEGGenerator" where
  "EEGGenerator_init mt fresh sr seed =
     \<lparr>sampling_rate = sr, eeg_rng = RandomState_init mt fresh seed\<rparr>"

text \<open>The class constant \<open>BANDS\<close>, in the order the dictionary is written.\<close>

definition BANDS :: "(string \<times> real \<times> real) list" where
  "BANDS = [(''delta'', (0.5, 4)), (''theta'', (4, 8)), (''alpha'', (8, 13)),
            (''beta'', (13, 30)), (''gamma'', (30, 100))]"

text \<open>
  One sample of \<open>generate_band\<close>: the loop over \<open>zip(frequencies, phases, weights)\<close>
  adds \<open>weight * sin(2 * pi * freq * t + phase)\<close> to the zero signal.
\<close>

definition band_sample :: "(real \<times> real \<times> real) list \<Rightarrow> real \<Rightarrow> real" where
  "band_sample components t =
     fold (\<lambda>(freq, phase, weight) acc. acc + weight * sin (2 * pi * freq * t + phase))
       components 0"

definition generate_band ::
  "EEGGenerator \<Rightarrow> string \<Rightarrow> real \<Rightarrow> real \<Rightarrow> (real list, EEGGenerator) result" where
  "generate_band self band_name duration amplitude =
     (case map_of BANDS band_name of
        None \<Rightarrow> Raises (UnknownBand band_name) self
      | Some (freq_min, freq_max) \<Rightarrow>
          let n_samples = py_int (duration * sampling_rate self);
              t = map (\<lambda>k. real k / sampling_rate self) [0..<nat n_samples]
          in case uniform_n (eeg_rng self) freq_min freq_max 3 of
               (frequencies, g1) \<Rightarrow>
                 (case uniform_n g1 0 (2 * pi) 3 of
                    (phases, g2) \<Rightarrow>
                      (case uniform_n g2 0.5 1.0 3 of
                         (weights0, g3) \<Rightarrow>
                           let weights = map (\<lambda>w. w / sum_list weights0) weights0;
                               self' = self\<lparr>eeg_rng := g3\<rparr>
                           in if n_samples < 0 then Raises NegativeDimensions self'
                              else Returns
                                     (map (\<lambda>tk. amplitude *
                                             band_sample (zip frequencies (zip phases weights)) tk) t)
                                     self')))"

text \<open>
  Two notions for stating what a mixed signal is made of: the generator after \<open>n\<close>
  doubles have been drawn from it, and the signal \<open>generate_band\<close> returns for a band
  at amplitude \<open>1\<close>.
\<close>

definition advance :: "nat \<Rightarrow> EEGGenerator \<Rightarrow> EEGGenerator" where
  "advance n self = self\<lparr>eeg_rng := skip_doubles n (eeg_rng self)\<rparr>"

definition unit_band :: "EEGGenerator \<Rightarrow> string \<Rightarrow> real \<Rightarrow> real list" where
  "unit_band self band_name duration =
     (case generate_band self band_name duration 1 of
        Returns sig s \<Rightarrow> sig | Raises e s \<Rightarrow> [] | Diverges \<Rightarrow> [])"

text \<open>
  The normalisation of \<open>generate_mixed_signal\<close>: every value is divided by the total.
  A dictionary is the list of its items in insertion order.  Python's float division
  raises when the total is zero and there is a value to divide; the comprehension over an
  empty dictionary divides nothing.
\<close>

definition normalize_weights :: "(string \<times> real) list \<Rightarrow> error + (string \<times> real) list" where
  "normalize_weights band_weights =
     (let total_weight = sum_list (map snd band_weights)
      in if band_weights \<noteq> [] \<and> total_weight = 0 then Inl ZeroDivisionError
         else Inr (map (\<lambda>(k, v). (k, v / total_weight)) band_weights))"

text \<open>
  The loop over the normalised weights: a band with a positive weight is generated with
  that weight as its amplitude and added to the signal, sample by sample.
\<close>

fun add_bands ::
  "EEGGenerator \<Rightarrow> real \<Rightarrow> (string \<times> real) list \<Rightarrow> real list
     \<Rightarrow> (real list, EEGGenerator) result" where
  "add_bands self duration [] signal = Returns signal self"
| "add_bands self duration ((band_name, weight) # rest) signal =
     (if weight > 0 then
        (case generate_band self band_name duration weight of
           Raises e s \<Rightarrow> Raises e s
         | Diverges \<Rightarrow> Diverges
         | Returns band_signal s \<Rightarrow>
             add_bands s duration rest (map (\<lambda>(a, b). a + b) (zip signal band_signal)))
      else add_bands self duration rest signal)"

text \<open>The amplitudes the loop passes to \<open>generate_band\<close>, band by band.\<close>

definition used_amplitudes :: "(string \<times> real) list \<Rightarrow> (string \<times> real) list" where
  "used_amplitudes weights = filter (\<lambda>(band_name, weight). weight > 0) weights"

definition generate_mixed_signal ::
  "EEGGenerator \<Rightarrow> real \<Rightarrow> (string \<times> real) list option \<Rightarrow> real
     \<Rightarrow> (real list, EEGGenerator) result" where
  "generate_mixed_signal self duration band_weights noise_level =
     (let bw = (case band_weights of
                  None \<Rightarrow> map (\<lambda>(band, range). (band, 1)) BANDS
                | Some w \<Rightarrow> w)
      in case normalize_weights bw of
           Inl e \<Rightarrow> Raises e self
         | Inr weights \<Rightarrow>
             let n_samples = py_int (duration * sampling_rate self)
             in if n_samples < 0 then Raises NegativeDimensions self
                else case add_bands self duration weights (replicate (nat n_samples) 0) of
                       Raises e s \<Rightarrow> Raises e s
                     | Diverges \<Rightarrow> Diverges
                     | Returns signal s \<Rightarrow>
                         if noise_level > 0 then
                           (case normal (eeg_rng s) 0 noise_level (nat n_samples) of
                              (noise, g) \<Rightarrow>
                                Returns (map (\<lambda>(a, b). a + b) (zip signal noise))
                                        (s\<lparr>eeg_rng := g\<rparr>))
                         else Returns signal s)"

definition state_profiles :: "(string \<times> (string \<times> real) list) list" where
  "state_profiles =
     [(''relaxed'', [(''alpha'', 3.0), (''theta'', 1.0), (''beta'', 0.5), (''delta'', 0.5),
                     (''gamma'', 0.2)]),
      (''focused'', [(''beta'', 3.0), (''gamma'', 2.0), (''alpha'', 0.5), (''theta'', 0.3),
                     (''delta'', 0.2)]),
      (''drowsy'', [(''delta'', 3.0), (''theta'', 2.0), (''alpha'', 0.5), (''beta'', 0.2),
                    (''gamma'', 0.1)]),
      (''active'', [(''beta'', 2.0), (''gamma'', 2.5), (''alpha'', 1.0), (''theta'', 0.5),
                    (''delta'', 0.3)])]"

definition generate_mental_state ::
  "EEGGenerator \<Rightarrow> string \<Rightarrow> real \<Rightarrow> (real list, EEGGenerator) result" where
  "generate_mental_state self state duration =
     (case map_of state_profiles state of
        None \<Rightarrow> Raises (UnknownState state) self
      | Some profile \<Rightarrow> generate_mixed_signal self duration (Some profile) 0.2)"

record channel_data =
  channel_name :: string
  signal :: "real list"
  time :: "real list"
  ch_sampling_rate :: real
  ch_duration :: real
  n_samples :: nat
  ch_state :: string
  mean_amplitude :: real
  peak_amplitude :: real

text \<open>
  \<open>generate_channel_data\<close>: \<open>np.max\<close> of an empty signal raises, so no record is
  built from an empty signal.
\<close>

definition generate_channel_data ::
  "EEGGenerator \<Rightarrow> string \<Rightarrow> real \<Rightarrow> string \<Rightarrow> real \<Rightarrow> (channel_data, EEGGenerator) result" where
  "generate_channel_data self name duration state noise_level =
     (case generate_mental_state self state duration of
        Raises e s \<Rightarrow> Raises e s
      | Diverges \<Rightarrow> Diverges
      | Returns sig s \<Rightarrow>
          if sig = [] then Raises ZeroSizeReduction s
          else Returns
                 \<lparr>channel_name = name, signal = sig,
                  time = map (\<lambda>k. real k / sampling_rate s) [0..<length sig],
                  ch_sampling_rate = sampling_rate s, ch_duration = duration,
                  n_samples = length sig, ch_state = state,
                  mean_amplitude = sum_list (map abs sig) / real (length sig),
                  peak_amplitude = Max (set (map abs sig))\<rparr> s)"

fun montage_loop ::
  "EEGGenerator \<Rightarrow> string list \<Rightarrow> real \<Rightarrow> string \<Rightarrow> channel_data list
     \<Rightarrow> (channel_data list, EEGGenerator) result" where
  "montage_loop self [] duration state montage_data = Returns montage_data self"
| "montage_loop self (channel # channels) duration state montage_data =
     (case generate_channel_data self channel duration state 0.1 of
        Raises e s \<Rightarrow> Raises e s
      | Diverges \<Rightarrow> Diverges
      | Returns cd s \<Rightarrow> montage_loop s channels duration state (montage_data @ [cd]))"

definition generate_montage ::
  "EEGGenerator \<Rightarrow> string list \<Rightarrow> real \<Rightarrow> string \<Rightarrow> (channel_data list, EEGGenerator) result" where
  "generate_montage self channel_names duration state =
     montage_loop self channel_names duration state []"

section \<open>brain\_model.py\<close>

record history_entry =
  h_duration :: real
  h_state :: string
  h_spike_count :: nat

record BrainModel =
  n_neurons :: int
  bm_sampling_rate :: real
  seed :: "int option"
  eeg_channels :: "string list"
  spike_gen :: SpikeGenerator
  eeg_gen :: EEGGenerator
  current_state :: string
  activity_history :: "history_entry list"

text \<open>
  The constructor.  Both generators are built from the same seed; \<open>fresh1\<close> and
  \<open>fresh2\<close> are the states they take from the operating system when there is none.
\<close>

definition BrainModel_init ::
  "(int \<Rightarrow> RandomState) \<Rightarrow> RandomState \<Rightarrow> RandomState
     \<Rightarrow> int \<Rightarrow> string list option \<Rightarrow> real \<Rightarrow> int option \<Rightarrow> BrainModel" where
  "BrainModel_init mt fresh1 fresh2 n channels sr sd =
     \<lparr>n_neurons = n, bm_sampling_rate = sr, seed = sd,
      eeg_channels = (case channels of
                        None \<Rightarrow> [''Fp1'', ''Fp2'', ''F3'', ''F4'', ''C3'', ''C4'', ''P3'', ''P4'']
                      | Some cs \<Rightarrow> cs),
      spike_gen = SpikeGenerator_init mt fresh1 sd,
      eeg_gen = EEGGenerator_init mt fresh2 sr sd,
      current_state = ''active'', activity_history = []\<rparr>"

record intuition_data =
  d20_roll :: int
  wisdom_modifier :: int
  total_score :: int
  difficulty_class :: int
  success :: bool
  character_wisdom :: int

record activity =
  act_duration :: real
  act_state :: string
  spike_trains :: "spike_train list"
  eeg_signals :: "channel_data list"
  act_n_neurons :: int
  n_channels :: nat
  act_sampling_rate :: real
  timestamp :: "real option"
  intuition :: "intuition_data option"

text \<open>
  \<open>simulate_activity\<close> assigns \<open>current_state\<close> first, runs the two generators, and
  appends to the history only after both have returned.  The field \<open>intuition\<close> is
  the key \<open>intuition_data\<close>, absent until \<open>generate_intuition_signal\<close> adds it.
\<close>

definition simulate_activity ::
  "BrainModel \<Rightarrow> real \<Rightarrow> string \<Rightarrow> real \<times> real \<Rightarrow> (activity, BrainModel) result" where
  "simulate_activity self duration state spike_rate_range =
     (let self1 = self\<lparr>current_state := state\<rparr>
      in case generate_population (spike_gen self1) (n_neurons self1) spike_rate_range duration
                ''poisson'' of
           Raises e sg \<Rightarrow> Raises e (self1\<lparr>spike_gen := sg\<rparr>)
         | Diverges \<Rightarrow> Diverges
         | Returns spike_data sg \<Rightarrow>
             let self2 = self1\<lparr>spike_gen := sg\<rparr>
             in case generate_montage (eeg_gen self2) (eeg_channels self2) duration state of
                  Raises e eg \<Rightarrow> Raises e (self2\<lparr>eeg_gen := eg\<rparr>)
                | Diverges \<Rightarrow> Diverges
                | Returns eeg_data eg \<Rightarrow>
                    let self3 = self2\<lparr>eeg_gen := eg\<rparr>
                    in Returns
                         \<lparr>act_duration = duration, act_state = state,
                          spike_trains = spike_data, eeg_signals = eeg_data,
                          act_n_neurons = n_neurons self3,
                          n_channels = length (eeg_channels self3),
                          act_sampling_rate = bm_sampling_rate self3,
                          timestamp = None, intuition = None\<rparr>
                         (self3\<lparr>activity_history := activity_history self3 @
                                   [\<lparr>h_duration = duration, h_state = state,
                                     h_spike_count = sum_list (map spike_count spike_data)\<rparr>]\<rparr>))"

text \<open>
  The outcome classification of \<open>generate_intuition_signal\<close>, from
  \<open>wisdom_mod = (character_wisdom - 10) // 2\<close> to the choice of state and rate range.
\<close>

definition classify :: "int \<Rightarrow> int \<Rightarrow> int \<Rightarrow> intuition_data \<times> string \<times> (real \<times> real)" where
  "classify base_roll wisdom difficulty =
     (let wisdom_mod = (wisdom - 10) div 2;
          intuition_score = base_roll + wisdom_mod;
          succ = (intuition_score \<ge> difficulty);
          (state, spike_rate_range) =
            (if succ then
               (if intuition_score \<ge> difficulty + 5 then (''focused'', (30.0, 60.0))
                else (''active'', (20.0, 45.0)))
             else
               (if intuition_score < difficulty - 5 then (''drowsy'', (5.0, 20.0))
                else (''relaxed'', (10.0, 30.0))))
      in (\<lparr>d20_roll = base_roll, wisdom_modifier = wisdom_mod, total_score = intuition_score,
           difficulty_class = difficulty, success = succ,
           character_wisdom = wisdom\<rparr>,
          state, spike_rate_range))"

text \<open>
  \<open>generate_intuition_signal\<close>.  The roll is \<open>np.random.randint(1, 21)\<close>: it is drawn
  from numpy's process-wide generator \<open>np_random\<close>, which is state of the process and
  not of the model.
\<close>

definition generate_intuition_signal ::
  "RandomState \<Rightarrow> BrainModel \<Rightarrow> int \<Rightarrow> int \<Rightarrow> real
     \<Rightarrow> (activity, BrainModel \<times> RandomState) result" where
  "generate_intuition_signal np_random self difficulty wisdom duration =
     (case randint np_random 1 21 of
        (base_roll, np_random') \<Rightarrow>
          (case classify base_roll wisdom difficulty of
             (idata, state, spike_rate_range) \<Rightarrow>
               (case simulate_activity self duration state spike_rate_range of
                  Raises e s \<Rightarrow> Raises e (s, np_random')
                | Diverges \<Rightarrow> Diverges
                | Returns act s \<Rightarrow> Returns (act\<lparr>intuition := Some idata\<rparr>) (s, np_random'))))"

text \<open>
  The dictionary \<open>get_summary_stats\<close> returns has three keys for an empty history and
  seven otherwise; the four that can be absent are options.
\<close>

record summary_stats =
  total_simulations :: nat
  total_duration :: real
  states :: "string \<rightharpoonup> nat \<times> real"
  total_spikes :: "nat option"
  average_firing_rate :: "real option"
  stats_n_neurons :: "int option"
  stats_n_channels :: "nat option"

text \<open>One round of the loop over the history: the entry's state gets one more count
  and the entry's duration.\<close>

definition count_state ::
  "history_entry \<Rightarrow> (string \<rightharpoonup> nat \<times> real) \<Rightarrow> (string \<rightharpoonup> nat \<times> real)" where
  "count_state h sts =
     (let (c, d) = (case sts (h_state h) of None \<Rightarrow> (0, 0) | Some e \<Rightarrow> e)
      in sts(h_state h \<mapsto> (c + 1, d + h_duration h)))"

definition get_summary_stats :: "BrainModel \<Rightarrow> summary_stats" where
  "get_summary_stats self =
     (if activity_history self = [] then
        \<lparr>total_simulations = 0, total_duration = 0, states = Map.empty,
         total_spikes = None, average_firing_rate = None,
         stats_n_neurons = None, stats_n_channels = None\<rparr>
      else
        let total_dur = sum_list (map h_duration (activity_history self));
            total_spk = sum_list (map h_spike_count (activity_history self))
        in \<lparr>total_simulations = length (activity_history self),
            total_duration = total_dur,
            states = fold count_state (activity_history self) Map.empty,
            total_spikes = Some total_spk,
            average_firing_rate =
              Some (if total_dur > 0 then real total_spk / total_dur else 0),
            stats_n_neurons = Some (n_neurons self),
            stats_n_channels = Some (length (eeg_channels self))\<rparr>)"

text \<open>What a call returned, what it raised, and the state it left behind.\<close>

definition returned :: "('a, 's) result \<Rightarrow> 'a option" where
  "returned r = (case r of Returns x s \<Rightarrow> Some x | Raises e s \<Rightarrow> None | Diverges \<Rightarrow> None)"

definition raised :: "('a, 's) result \<Rightarrow> error option" where
  "raised r = (case r of Returns x s \<Rightarrow> None | Raises e s \<Rightarrow> Some e | Diverges \<Rightarrow> None)"

definition state_after :: "('a, 's) result \<Rightarrow> 's option" where
  "state_after r = (case r of Returns x s \<Rightarrow> Some s | Raises e s \<Rightarrow> Some s | Diverges \<Rightarrow> None)"

section \<open>Example inputs\<close>

text \<open>
  Concrete generator states, models and histories, on which the theorems below are
  evaluated.  \<open>steady u r\<close> delivers the double \<open>u\<close>, the deviate \<open>0\<close> and the raw
  integer \<open>r\<close> at every draw.
\<close>

definition steady :: "real \<Rightarrow> nat \<Rightarrow> RandomState" where
  "steady u r = \<lparr>doubles = (\<lambda>k. u), gauss = (\<lambda>k. 0), ints = (\<lambda>k. r)\<rparr>"

definition example_model :: "int \<Rightarrow> string list option \<Rightarrow> BrainModel" where
  "example_model n channels =
     BrainModel_init (\<lambda>s. steady (1/2) (nat s)) (steady 0 0) (steady 0 0) n channels 250 (Some 42)"

definition example_history :: "history_entry list" where
  "example_history =
     [\<lparr>h_duration = 1, h_state = ''active'', h_spike_count = 9\<rparr>,
      \<lparr>h_duration = 1/2, h_state = ''relaxed'', h_spike_count = 3\<rparr>,
      \<lparr>h_duration = 3/2, h_state = ''active'', h_spike_count = 6\<rparr>]"

text \<open>A generator whose first two doubles are \<open>0\<close> and whose later ones are \<open>0.9\<close>.\<close>

definition two_then_none :: RandomState where
  "two_then_none = \<lparr>doubles = (\<lambda>k. if k < 2 then 0 else 9/10), gauss = (\<lambda>k. 0), ints = (\<lambda>k. 0)\<rparr>"

text \<open>A state of numpy's process-wide generator: its next two rolls are \<open>3\<close> and \<open>17\<close>.\<close>

definition np_random_example :: RandomState where
  "np_random_example =
     \<lparr>doubles = (\<lambda>k. 0), gauss = (\<lambda>k. 0), ints = (\<lambda>k. if k = 0 then 2 else 16)\<rparr>"

text \<open>An EEG generator sampling at 250 Hz.\<close>

definition example_eeg :: EEGGenerator where
  "example_eeg = \<lparr>sampling_rate = 250, eeg_rng = steady (1/2) 0\<rparr>"

section \<open>The outcome classification\<close>

lemma intuition_signal_outcome:
  assumes "generate_intuition_signal g m difficulty wisdom duration = Returns act s"
  shows "intuition act = Some (fst (classify (fst (randint g 1 21)) wisdom difficulty))
         \<and> act_state act = fst (snd (classify (fst (randint g 1 21)) wisdom difficulty))"
  using assms
  by (auto simp: generate_intuition_signal_def simulate_activity_def Let_def
           split: prod.splits result.splits)

text \<open>
  Claim C2.  For every roll, wisdom and difficulty the classification computes
  \<open>wisdom_modifier = floor((wisdom - 10) / 2)\<close>, \<open>total_score = d20_roll +
  wisdom_modifier\<close> and \<open>success = (total_score \<ge> difficulty)\<close>, and selects
  focused with (30, 60) on a success by 5 or more, active with (20, 45) on any other
  success, drowsy with (5, 20) on a failure by more than 5, and relaxed with (10, 30)
  otherwise.  It is a function of the three integers alone, and what
  \<open>generate_intuition_signal\<close> returns carries its outcome for the roll drawn and
  the state it selected.
\<close>

theorem C2_outcome_classification:
  "classify d20 wisdom difficulty =
     (let wm = \<lfloor>(real_of_int wisdom - 10) / 2\<rfloor>;
          total = d20 + wm;
          succ = (total \<ge> difficulty)
      in (\<lparr>d20_roll = d20, wisdom_modifier = wm, total_score = total,
           difficulty_class = difficulty, success = succ, character_wisdom = wisdom\<rparr>,
          if succ \<and> total \<ge> difficulty + 5 then (''focused'', (30, 60))
          else if succ then (''active'', (20, 45))
          else if \<not> succ \<and> total < difficulty - 5 then (''drowsy'', (5, 20))
          else (''relaxed'', (10, 30))))
   \<and> (\<forall>act s. generate_intuition_signal g m difficulty wisdom duration = Returns act s \<longrightarrow>
          intuition act = Some (fst (classify (fst (randint g 1 21)) wisdom difficulty))
          \<and> act_state act = fst (snd (classify (fst (randint g 1 21)) wisdom difficulty)))"
proof -
  have "\<lfloor>(real_of_int wisdom - 10) / 2\<rfloor> = (wisdom - 10) div 2"
    by (metis floor_divide_of_int_eq of_int_diff of_int_numeral)
  then show ?thesis
    using intuition_signal_outcome [of g m difficulty wisdom duration]
    by (simp add: classify_def Let_def)
qed

section \<open>Summary statistics\<close>

lemma fold_count_state:
  "fold count_state hs m s =
     (let matching = filter (\<lambda>h. h_state h = s) hs;
          e = (case m s of None \<Rightarrow> (0, 0) | Some e \<Rightarrow> e)
      in if matching = [] then m s
         else Some (fst e + length matching, snd e + sum_list (map h_duration matching)))"
proof (induction hs arbitrary: m)
  case Nil
  then show ?case by simp
next
  case (Cons h hs)
  obtain c d where cd: "(case m (h_state h) of None \<Rightarrow> (0, 0) | Some e \<Rightarrow> e) = (c, d)"
    by (cases "case m (h_state h) of None \<Rightarrow> (0::nat, 0::real) | Some e \<Rightarrow> e") auto
  have step: "count_state h m = m(h_state h \<mapsto> (c + 1, d + h_duration h))"
    by (simp add: count_state_def cd)
  show ?case
  proof (cases "h_state h = s")
    case True
    with cd step show ?thesis
      by (simp add: Cons.IH Let_def)
  next
    case False
    with step show ?thesis
      by (simp add: Cons.IH Let_def)
  qed
qed

text \<open>
  Claim C4, as the code has it.  On an empty history \<open>get_summary_stats\<close> returns
  exactly \<open>total_simulations = 0\<close>, \<open>total_duration = 0\<close> and an empty per-state
  breakdown: the keys for the spike count and the average firing rate are absent, and
  nothing is divided.  On a non-empty history it returns the number of entries, the
  total duration, the total spike count, the average firing rate (total spikes over
  total duration when that is positive, \<open>0\<close> otherwise), and for every state that
  occurs its count and cumulative duration.
\<close>

theorem C4_summary_stats:
  "(activity_history m = [] \<longrightarrow>
      get_summary_stats m =
        \<lparr>total_simulations = 0, total_duration = 0, states = Map.empty,
         total_spikes = None, average_firing_rate = None,
         stats_n_neurons = None, stats_n_channels = None\<rparr>)
   \<and> (activity_history m \<noteq> [] \<longrightarrow>
        (let st = get_summary_stats m;
             hist = activity_history m;
             dur = sum_list (map h_duration hist);
             spk = sum_list (map h_spike_count hist)
         in total_simulations st = length hist
            \<and> total_duration st = dur
            \<and> total_spikes st = Some spk
            \<and> average_firing_rate st = Some (if dur > 0 then real spk / dur else 0)
            \<and> (\<forall>s. states st s =
                  (let matching = filter (\<lambda>h. h_state h = s) hist
                   in if matching = [] then None
                      else Some (length matching, sum_list (map h_duration matching))))))"
  by (simp add: get_summary_stats_def Let_def fold_count_state)

theorem C4_witness:
  "get_summary_stats (example_model 100 None) =
     \<lparr>total_simulations = 0, total_duration = 0, states = Map.empty,
      total_spikes = None, average_firing_rate = None,
      stats_n_neurons = None, stats_n_channels = None\<rparr>
   \<and> total_duration (get_summary_stats
        ((example_model 100 None)\<lparr>activity_history := example_history\<rparr>)) = 3
   \<and> average_firing_rate (get_summary_stats
        ((example_model 100 None)\<lparr>activity_history := example_history\<rparr>)) = Some 6
   \<and> states (get_summary_stats
        ((example_model 100 None)\<lparr>activity_history := example_history\<rparr>)) ''active''
       = Some (2, 5/2)"
  using C4_summary_stats [of "example_model 100 None"]
        C4_summary_stats [of "(example_model 100 None)\<lparr>activity_history := example_history\<rparr>"]
  by (simp add: example_model_def BrainModel_init_def example_history_def Let_def)

text \<open>
  The empty history of a new model: the result has no average firing rate (so none equal
  to \<open>0\<close>) and no total spike count.
\<close>

theorem C4_counterexample:
  "activity_history (example_model 100 None) = []
   \<and> average_firing_rate (get_summary_stats (example_model 100 None)) \<noteq> Some 0
   \<and> total_spikes (get_summary_stats (example_model 100 None)) = None"
  by (simp add: example_model_def BrainModel_init_def get_summary_stats_def)

section \<open>Poisson spike trains\<close>

lemma skip_doubles_0 [simp]: "skip_doubles 0 g = g"
  by (simp add: skip_doubles_def)

lemma py_int_nonneg: "0 \<le> x \<Longrightarrow> py_int x = \<lfloor>x\<rfloor>"
  by (simp add: py_int_def)

lemma py_int_ge0: "- 1 < x \<Longrightarrow> 0 \<le> py_int x"
  by (simp add: py_int_def)

lemma poisson_spikes_returns:
  assumes "dt \<noteq> 0" "0 \<le> py_int (duration / dt)"
  shows "poisson_spikes self rate duration dt =
           Returns (map (\<lambda>i. real i * dt)
                      (filter (\<lambda>i. doubles (rng self) i < rate * dt)
                         [0..<nat (py_int (duration / dt))]))
                   (self\<lparr>rng := skip_doubles (nat (py_int (duration / dt))) (rng self)\<rparr>)"
proof -
  let ?n = "nat (py_int (duration / dt))"
  have "filter (\<lambda>i. map (doubles (rng self)) [0..<?n] ! i < rate * dt) [0..<?n]
        = filter (\<lambda>i. doubles (rng self) i < rate * dt) [0..<?n]"
    by (rule filter_cong) auto
  with assms show ?thesis
    by (simp add: poisson_spikes_def random_samples_def Let_def)
qed

text \<open>
  Claim C6, as the code has it.  For every \<open>dt > 0\<close>, every rate (in particular one
  with \<open>rate * dt \<le> 1\<close>) and every \<open>duration > 0\<close>, \<open>poisson_spikes\<close> returns
  only times in \<open>[0, duration)\<close>, each the index of a bin whose draw is below
  \<open>rate * dt\<close> times \<open>dt\<close>, and the number of returned entries is at most
  \<open>duration / dt\<close> (not always strictly fewer).  No such bin is left out, the last
  one or two aside: the time of every bin \<open>i\<close> with \<open>i + 2 \<le> duration / dt\<close> whose
  draw is below \<open>rate * dt\<close> is returned.
\<close>

theorem C6_poisson_spikes:
  assumes "0 < dt" "0 < duration"
  shows "\<exists>ts s. poisson_spikes self rate duration dt = Returns ts s
           \<and> (\<forall>t \<in> set ts. 0 \<le> t \<and> t < duration
                  \<and> (\<exists>i. t = real i * dt \<and> doubles (rng self) i < rate * dt))
           \<and> real (length ts) \<le> duration / dt
           \<and> (\<forall>i. real i + 2 \<le> duration / dt \<and> doubles (rng self) i < rate * dt \<longrightarrow>
                  real i * dt \<in> set ts)"
proof -
  let ?n = "nat (py_int (duration / dt))"
  let ?bins = "filter (\<lambda>i. doubles (rng self) i < rate * dt) [0..<?n]"
  have q: "0 \<le> duration / dt" using assms by simp
  then have n: "py_int (duration / dt) = \<lfloor>duration / dt\<rfloor>" "0 \<le> \<lfloor>duration / dt\<rfloor>"
    by (simp_all add: py_int_def)
  have le: "real ?n \<le> duration / dt"
    using n by (simp add: of_nat_nat)
  have ret: "poisson_spikes self rate duration dt =
           Returns (map (\<lambda>i. real i * dt) ?bins)
                   (self\<lparr>rng := skip_doubles ?n (rng self)\<rparr>)"
    using assms n by (intro poisson_spikes_returns) simp_all
  have "\<forall>t \<in> set (map (\<lambda>i. real i * dt) ?bins). 0 \<le> t \<and> t < duration
          \<and> (\<exists>i. t = real i * dt \<and> doubles (rng self) i < rate * dt)"
  proof
    fix t assume "t \<in> set (map (\<lambda>i. real i * dt) ?bins)"
    then obtain i where i: "t = real i * dt" "i < ?n" "doubles (rng self) i < rate * dt"
      by auto
    then have "real i + 1 \<le> real ?n" by linarith
    then have "real i + 1 \<le> duration / dt" using le by linarith
    then have "(real i + 1) * dt \<le> duration"
      using assms by (simp add: pos_le_divide_eq)
    then have "real i * dt + dt \<le> duration" by (simp add: algebra_simps)
    with assms i show "0 \<le> t \<and> t < duration
          \<and> (\<exists>i. t = real i * dt \<and> doubles (rng self) i < rate * dt)"
      by auto
  qed
  moreover have "real (length (map (\<lambda>i. real i * dt) ?bins)) \<le> duration / dt"
  proof -
    have "length ?bins \<le> length [0..<?n]" by (rule length_filter_le)
    then have "real (length ?bins) \<le> real ?n" by simp
    with le show ?thesis by simp
  qed
  moreover have "\<forall>i. real i + 2 \<le> duration / dt \<and> doubles (rng self) i < rate * dt \<longrightarrow>
                  real i * dt \<in> set (map (\<lambda>i. real i * dt) ?bins)"
  proof (intro allI impI)
    fix i assume i: "real i + 2 \<le> duration / dt \<and> doubles (rng self) i < rate * dt"
    have "duration / dt < real_of_int \<lfloor>duration / dt\<rfloor> + 1" by linarith
    with i have "real i < real_of_int \<lfloor>duration / dt\<rfloor>" by linarith
    then have "int i < \<lfloor>duration / dt\<rfloor>" by linarith
    then have "i < ?n" using n by simp
    with i have "i \<in> set ?bins" by simp
    then have "real i * dt \<in> (\<lambda>i. real i * dt) ` set ?bins" by (rule imageI)
    then show "real i * dt \<in> set (map (\<lambda>i. real i * dt) ?bins)" by (simp only: set_map)
  qed
  ultimately show ?thesis using ret by blast
qed

theorem C6_witness:
  "\<exists>ts s. poisson_spikes \<lparr>rng = steady 0 0\<rparr> 1 1 (1/2) = Returns ts s
           \<and> (\<forall>t \<in> set ts. 0 \<le> t \<and> t < 1)
           \<and> real (length ts) \<le> 2
           \<and> 0 \<in> set ts"
proof -
  have "(0::real) < 1/2" "(0::real) < 1" by simp_all
  from C6_poisson_spikes [OF this, of "\<lparr>rng = steady 0 0\<rparr>" 1]
  obtain ts s where
    r: "poisson_spikes \<lparr>rng = steady 0 0\<rparr> 1 1 (1/2) = Returns ts s"
    "\<forall>t \<in> set ts. 0 \<le> t \<and> t < 1" "real (length ts) \<le> 1 / (1/2)"
    and c: "\<forall>i. real i + 2 \<le> 1 / (1/2) \<and> doubles (rng \<lparr>rng = steady 0 0\<rparr>) i < 1 * (1/2) \<longrightarrow>
                  real i * (1/2) \<in> set ts"
    by blast
  from c [rule_format, of 0] have "0 \<in> set ts"
    by (simp add: steady_def)
  with r show ?thesis by auto
qed

text \<open>
  With \<open>dt = 1/2\<close>, \<open>rate = 1\<close> and \<open>duration = 1\<close> both bins spike when both draws
  are \<open>0\<close>: two entries, and \<open>duration / dt = 2\<close>.
\<close>

theorem C6_counterexample:
  "(0::real) < 1/2 \<and> (1::real) * (1/2) \<le> 1 \<and> (0::real) < 1
   \<and> returned (poisson_spikes \<lparr>rng = steady 0 0\<rparr> 1 1 (1/2)) = Some [0, 1/2]
   \<and> \<not> real (length [0, 1/2 :: real]) < 1 / (1/2)"
  by (simp add: poisson_spikes_def random_samples_def py_int_def steady_def Let_def
        returned_def upt_rec [of 0 2] upt_rec [of 1 2] upt_rec [of 2 2] nat_numeral)

section \<open>Failures and the state they leave\<close>

lemma dispatch_invalid_mode:
  "md \<notin> {''poisson'', ''refractory'', ''burst''} \<Longrightarrow>
     dispatch_mode self rate duration md kw = Raises (InvalidMode md) self"
  by (simp add: dispatch_mode_def)

lemma train_poisson_returns:
  assumes "- (1/1000) < duration"
  shows "\<exists>ts s. generate_spike_train self i rate duration ''poisson'' no_kwargs =
           Returns \<lparr>neuron_id = i, spike_times = ts, spike_count = length ts,
                    st_duration = duration, mode = ''poisson'',
                    firing_rate = (if duration > 0 then real (length ts) / duration else 0),
                    parameters = no_kwargs\<rparr> s
           \<and> (duration \<le> 0 \<longrightarrow> ts = [])"
proof -
  have "- 1 < duration / (1/1000)" using assms by simp
  then have n: "0 \<le> py_int (duration / (1/1000))" by (rule py_int_ge0)
  have z: "duration \<le> 0 \<Longrightarrow> py_int (duration / (1/1000)) = 0"
    using assms by (simp add: py_int_def) linarith
  have "poisson_spikes self rate duration (1/1000) =
           Returns (map (\<lambda>i. real i * (1/1000))
                      (filter (\<lambda>i. doubles (rng self) i < rate * (1/1000))
                         [0..<nat (py_int (duration / (1/1000)))]))
                   (self\<lparr>rng := skip_doubles (nat (py_int (duration / (1/1000)))) (rng self)\<rparr>)"
    using n by (intro poisson_spikes_returns) simp_all
  then show ?thesis
    using z by (simp add: generate_spike_train_def dispatch_mode_def no_kwargs_def or_default_def)
qed

lemma population_loop_poisson:
  assumes "- (1/1000) < duration"
  shows "\<exists>trains s. population_loop self ids (low, high) duration ''poisson'' acc =
             Returns (acc @ trains) s
           \<and> map neuron_id trains = ids
           \<and> (\<forall>tr \<in> set trains. st_duration tr = duration \<and> mode tr = ''poisson''
                 \<and> spike_count tr = length (spike_times tr)
                 \<and> (duration \<le> 0 \<longrightarrow> spike_times tr = [] \<and> firing_rate tr = 0))"
proof (induction ids arbitrary: self acc)
  case Nil
  then show ?case by simp
next
  case (Cons i ids)
  obtain rate g where u: "uniform (rng self) low high = (rate, g)"
    by (cases "uniform (rng self) low high")
  from train_poisson_returns [OF assms, of "self\<lparr>rng := g\<rparr>" i rate]
  obtain ts s where t: "generate_spike_train (self\<lparr>rng := g\<rparr>) i rate duration ''poisson'' no_kwargs =
           Returns \<lparr>neuron_id = i, spike_times = ts, spike_count = length ts,
                    st_duration = duration, mode = ''poisson'',
                    firing_rate = (if duration > 0 then real (length ts) / duration else 0),
                    parameters = no_kwargs\<rparr> s" and e: "duration \<le> 0 \<longrightarrow> ts = []"
    by blast
  let ?tr = "\<lparr>neuron_id = i, spike_times = ts, spike_count = length ts,
                    st_duration = duration, mode = ''poisson'',
                    firing_rate = (if duration > 0 then real (length ts) / duration else 0),
                    parameters = no_kwargs\<rparr>"
  from Cons.IH [of s "acc @ [?tr]"]
  obtain trains s' where r: "population_loop s ids (low, high) duration ''poisson'' (acc @ [?tr]) =
             Returns ((acc @ [?tr]) @ trains) s'"
      "map neuron_id trains = ids"
      "\<forall>tr \<in> set trains. st_duration tr = duration \<and> mode tr = ''poisson''
                 \<and> spike_count tr = length (spike_times tr)
                 \<and> (duration \<le> 0 \<longrightarrow> spike_times tr = [] \<and> firing_rate tr = 0)"
    by blast
  have "population_loop self (i # ids) (low, high) duration ''poisson'' acc =
          Returns (acc @ (?tr # trains)) s'"
    using u t r(1) by simp
  moreover have "map neuron_id (?tr # trains) = i # ids" using r(2) by simp
  moreover have "\<forall>tr \<in> set (?tr # trains). st_duration tr = duration \<and> mode tr = ''poisson''
                 \<and> spike_count tr = length (spike_times tr)
                 \<and> (duration \<le> 0 \<longrightarrow> spike_times tr = [] \<and> firing_rate tr = 0)"
    using r(3) e by simp
  ultimately show ?case
    by (intro exI [of _ "?tr # trains"] exI [of _ s'] conjI)
qed

lemma generate_population_poisson:
  assumes "- (1/1000) < duration \<or> n \<le> 0"
  shows "\<exists>pop s. generate_population self n rr duration ''poisson'' = Returns pop s
           \<and> map neuron_id pop = map int [0..<nat n]
           \<and> (\<forall>tr \<in> set pop. st_duration tr = duration \<and> mode tr = ''poisson''
                 \<and> spike_count tr = length (spike_times tr)
                 \<and> (duration \<le> 0 \<longrightarrow> spike_times tr = [] \<and> firing_rate tr = 0))"
proof (cases "n \<le> 0")
  case True
  then show ?thesis by (simp add: generate_population_def)
next
  case False
  with assms have d: "- (1/1000) < duration" by simp
  obtain low high where rr: "rr = (low, high)" by (cases rr)
  from population_loop_poisson [OF d, of self "map int [0..<nat n]" low high "[]"]
  show ?thesis by (simp add: generate_population_def rr)
qed

lemma montage_unknown_state:
  assumes "state \<notin> {''relaxed'', ''focused'', ''drowsy'', ''active''}" "channels \<noteq> []"
  shows "generate_montage eg channels duration state = Raises (UnknownState state) eg"
proof -
  have "map_of state_profiles state = None"
    using assms(1) by (simp add: state_profiles_def)
  then have "generate_channel_data eg c duration state nl = Raises (UnknownState state) eg" for c nl
    by (simp add: generate_channel_data_def generate_mental_state_def)
  then show ?thesis
    using assms(2) by (cases channels) (simp_all add: generate_montage_def)
qed

lemma simulate_activity_raises:
  assumes "simulate_activity m duration state rr = Raises e m'"
  shows "activity_history m' = activity_history m \<and> current_state m' = state"
  using assms
  by (auto simp: simulate_activity_def Let_def split: result.splits)

lemma simulate_activity_unknown_state:
  assumes "state \<notin> {''relaxed'', ''focused'', ''drowsy'', ''active''}"
    and "eeg_channels m \<noteq> []"
    and "- (1/1000) < duration \<or> n_neurons m \<le> 0"
  shows "\<exists>m'. simulate_activity m duration state rr = Raises (UnknownState state) m'
           \<and> activity_history m' = activity_history m \<and> current_state m' = state
           \<and> eeg_gen m' = eeg_gen m"
proof -
  from generate_population_poisson [OF assms(3), of "spike_gen m" rr]
  obtain pop s where p: "generate_population (spike_gen m) (n_neurons m) rr duration ''poisson'' = Returns pop s"
    by blast
  have "generate_montage (eeg_gen m) (eeg_channels m) duration state = Raises (UnknownState state) (eeg_gen m)"
    using assms(1,2) by (rule montage_unknown_state)
  with p show ?thesis
    by (simp add: simulate_activity_def Let_def)
qed

lemma simulate_activity_no_channels:
  assumes "eeg_channels m = []" and "- (1/1000) < duration \<or> n_neurons m \<le> 0"
  shows "\<exists>act m' k. simulate_activity m duration state rr = Returns act m'
           \<and> activity_history m' = activity_history m @
                [\<lparr>h_duration = duration, h_state = state, h_spike_count = k\<rparr>]"
proof -
  from generate_population_poisson [OF assms(2), of "spike_gen m" rr]
  obtain pop s where p: "generate_population (spike_gen m) (n_neurons m) rr duration ''poisson'' = Returns pop s"
    by blast
  then show ?thesis
    using assms(1) by (simp add: simulate_activity_def Let_def generate_montage_def)
qed

lemma intuition_signal_raises:
  assumes "generate_intuition_signal g m difficulty wisdom duration = Raises e (m', g')"
  shows "activity_history m' = activity_history m"
proof -
  obtain roll g1 where r: "randint g 1 21 = (roll, g1)" by (cases "randint g 1 21")
  obtain idata st rr where c: "classify roll wisdom difficulty = (idata, st, rr)"
    by (cases "classify roll wisdom difficulty")
  from assms r c have "simulate_activity m duration st rr = Raises e m'"
    by (simp add: generate_intuition_signal_def split: result.splits)
  then show ?thesis by (simp add: simulate_activity_raises)
qed

text \<open>
  Claim C9.  For every mode string other than poisson, refractory and burst,
  \<open>generate_spike_train\<close> raises the unknown-mode error, returns no train and leaves
  the generator as it was; and whenever a generation of a \<open>BrainModel\<close> fails, with
  this or any other error, its \<open>activity_history\<close> is the one it had before the call.
\<close>

theorem C9_invalid_mode:
  "(md \<notin> {''poisson'', ''refractory'', ''burst''} \<longrightarrow>
      generate_spike_train self nid rate duration md kw = Raises (InvalidMode md) self)
   \<and> (\<forall>e m'. simulate_activity m dur state rr = Raises e m' \<longrightarrow>
          activity_history m' = activity_history m)
   \<and> (\<forall>e m' g'. generate_intuition_signal g m difficulty wisdom dur = Raises e (m', g') \<longrightarrow>
          activity_history m' = activity_history m)"
  by (simp add: generate_spike_train_def dispatch_invalid_mode simulate_activity_raises
        intuition_signal_raises)

theorem C9_witness:
  "generate_spike_train \<lparr>rng = steady 0 0\<rparr> 7 20 1 ''telepathy'' no_kwargs =
     Raises (InvalidMode ''telepathy'') \<lparr>rng = steady 0 0\<rparr>
   \<and> raised (simulate_activity (example_model 2 None) 1 ''zen'' (5, 50)) = Some (UnknownState ''zen'')
   \<and> map_option activity_history
        (state_after (simulate_activity (example_model 2 None) 1 ''zen'' (5, 50))) = Some []"
proof -
  have "''zen'' \<notin> {''relaxed'', ''focused'', ''drowsy'', ''active''}"
       "eeg_channels (example_model 2 None) \<noteq> []"
       "- (1/1000) < (1::real) \<or> n_neurons (example_model 2 None) \<le> 0"
    by (simp_all add: example_model_def BrainModel_init_def)
  from simulate_activity_unknown_state [OF this, of "(5, 50)"]
  obtain m' where m': "simulate_activity (example_model 2 None) 1 ''zen'' (5, 50) =
      Raises (UnknownState ''zen'') m'"
    by blast
  have "activity_history m' = activity_history (example_model 2 None)"
    using C9_invalid_mode [of "''telepathy''" "\<lparr>rng = steady 0 0\<rparr>" 7 20 1 no_kwargs
        "example_model 2 None" 1 "''zen''" "(5, 50)"] m'
    by blast
  moreover have "generate_spike_train \<lparr>rng = steady 0 0\<rparr> 7 20 1 ''telepathy'' no_kwargs =
     Raises (InvalidMode ''telepathy'') \<lparr>rng = steady 0 0\<rparr>"
    using C9_invalid_mode [of "''telepathy''" "\<lparr>rng = steady 0 0\<rparr>" 7 20 1 no_kwargs]
    by simp
  ultimately show ?thesis
    using m' by (simp add: raised_def state_after_def example_model_def BrainModel_init_def)
qed

text \<open>
  Claim C10, as the code has it.  For every \<open>BrainModel\<close> with at least one EEG
  channel, every state string that is not one of the four mental states, and every
  duration the spike generation accepts (above \<open>-0.001\<close>, or any when the model has no
  neurons), \<open>simulate_activity\<close> raises the unknown-state error and leaves
  \<open>activity_history\<close> unchanged, while \<open>current_state\<close> holds the invalid string
  after the failure.
\<close>

theorem C10_unknown_state:
  assumes "state \<notin> {''relaxed'', ''focused'', ''drowsy'', ''active''}"
    and "eeg_channels m \<noteq> []"
    and "- (1/1000) < duration \<or> n_neurons m \<le> 0"
  shows "\<exists>m'. simulate_activity m duration state rr = Raises (UnknownState state) m'
           \<and> activity_history m' = activity_history m \<and> current_state m' = state"
  using simulate_activity_unknown_state [OF assms, of rr] by blast

theorem C10_witness:
  "raised (simulate_activity (example_model 100 None) 1 ''zen'' (5, 50)) = Some (UnknownState ''zen'')
   \<and> map_option current_state
        (state_after (simulate_activity (example_model 100 None) 1 ''zen'' (5, 50))) = Some ''zen''
   \<and> map_option activity_history
        (state_after (simulate_activity (example_model 100 None) 1 ''zen'' (5, 50))) = Some []"
proof -
  have "''zen'' \<notin> {''relaxed'', ''focused'', ''drowsy'', ''active''}"
       "eeg_channels (example_model 100 None) \<noteq> []"
       "- (1/1000) < (1::real) \<or> n_neurons (example_model 100 None) \<le> 0"
    by (simp_all add: example_model_def BrainModel_init_def)
  from C10_unknown_state [OF this, of "(5, 50)"]
  obtain m' where "simulate_activity (example_model 100 None) 1 ''zen'' (5, 50) =
      Raises (UnknownState ''zen'') m'" "activity_history m' = activity_history (example_model 100 None)"
      "current_state m' = ''zen''"
    by blast
  then show ?thesis
    by (simp add: raised_def state_after_def example_model_def BrainModel_init_def)
qed

text \<open>
  A model with an empty channel list never reaches the check of the state: the call
  returns, and the invalid state is appended to the history.
\<close>

theorem C10_counterexample:
  "''zen'' \<notin> {''relaxed'', ''focused'', ''drowsy'', ''active''}
   \<and> raised (simulate_activity (example_model 100 (Some [])) 1 ''zen'' (5, 50)) = None
   \<and> map_option (map h_state \<circ> activity_history)
        (state_after (simulate_activity (example_model 100 (Some [])) 1 ''zen'' (5, 50)))
       = Some [''zen'']"
proof -
  have "eeg_channels (example_model 100 (Some [])) = []"
       "- (1/1000) < (1::real) \<or> n_neurons (example_model 100 (Some [])) \<le> 0"
    by (simp_all add: example_model_def BrainModel_init_def)
  from simulate_activity_no_channels [OF this, of "''zen''" "(5, 50)"]
  obtain act m' k where "simulate_activity (example_model 100 (Some [])) 1 ''zen'' (5, 50) = Returns act m'"
     "activity_history m' = activity_history (example_model 100 (Some [])) @
                [\<lparr>h_duration = 1, h_state = ''zen'', h_spike_count = k\<rparr>]"
    by blast
  then show ?thesis
    by (simp add: raised_def state_after_def example_model_def BrainModel_init_def)
qed

section \<open>Truncation and short intervals\<close>

lemma py_int_zero: "- 1 < x \<Longrightarrow> x \<le> 0 \<Longrightarrow> py_int x = 0"
  by (simp add: py_int_def) linarith

lemma upt_nat_2: "[0..<2] = [0, 1]"
  by (simp add: eval_nat_numeral)

lemma upt_nat_3: "[0..<3] = [0, 1, 2]"
  by (simp add: eval_nat_numeral)

lemma py_int_neg: "x \<le> - 1 \<Longrightarrow> py_int x < 0"
  by (simp add: py_int_def)

section \<open>Band weights\<close>

lemma sum_list_divide: "sum_list (map (\<lambda>x. f x / (c::real)) xs) = sum_list (map f xs) / c"
  by (induction xs) (simp_all add: add_divide_distrib)

lemma normalize_weights_total:
  assumes "sum_list (map snd bw) \<noteq> 0"
  shows "normalize_weights bw = Inr (map (\<lambda>(k, v). (k, v / sum_list (map snd bw))) bw)"
    and "sum_list (map snd (map (\<lambda>(k, v). (k, v / sum_list (map snd bw))) bw)) = 1"
proof -
  show "normalize_weights bw = Inr (map (\<lambda>(k, v). (k, v / sum_list (map snd bw))) bw)"
    using assms by (simp add: normalize_weights_def Let_def)
  have "map snd (map (\<lambda>(k, v). (k, v / sum_list (map snd bw))) bw)
        = map (\<lambda>x. snd x / sum_list (map snd bw)) bw"
    by (simp add: case_prod_beta)
  then show "sum_list (map snd (map (\<lambda>(k, v). (k, v / sum_list (map snd bw))) bw)) = 1"
    using assms by (simp only: sum_list_divide) simp
qed

lemma add_bands_used_amplitudes:
  "add_bands self duration weights sig = add_bands self duration (used_amplitudes weights) sig"
proof (induction weights arbitrary: self sig)
  case Nil
  then show ?case by (simp add: used_amplitudes_def)
next
  case (Cons p weights)
  obtain band_name weight where p: "p = (band_name, weight)" by (cases p)
  show ?case
  proof (cases "weight > 0")
    case True
    then show ?thesis
      using Cons.IH by (simp add: p used_amplitudes_def split: result.splits)
  next
    case False
    then show ?thesis
      using Cons.IH by (simp add: p used_amplitudes_def)
  qed
qed

lemma used_amplitudes_sum:
  assumes "\<forall>v \<in> snd ` set w. 0 \<le> v"
  shows "sum_list (map snd (used_amplitudes w)) = sum_list (map snd w)"
  using assms
proof (induction w)
  case Nil
  then show ?case by (simp add: used_amplitudes_def)
next
  case (Cons p w)
  then show ?case
    by (cases p) (auto simp: used_amplitudes_def)
qed

lemma sum_list_nonneg_pos:
  assumes "\<forall>v \<in> set (vs::real list). 0 \<le> v" "sum_list vs \<noteq> 0"
  shows "0 < sum_list vs"
proof -
  have "0 \<le> sum_list vs" using assms(1) by (simp add: sum_list_nonneg)
  with assms(2) show ?thesis by simp
qed

lemma default_weights:
  "normalize_weights (map (\<lambda>(band, range). (band, 1)) BANDS) =
     Inr [(''delta'', 1/5), (''theta'', 1/5), (''alpha'', 1/5), (''beta'', 1/5), (''gamma'', 1/5)]"
  by (simp add: normalize_weights_def BANDS_def)

text \<open>
  An empty mapping is normalised to an empty mapping, whose weights sum to \<open>0\<close>, and
  the call returns a signal; weights with total \<open>0\<close> raise \<open>ZeroDivisionError\<close>.
\<close>

theorem C8_counterexample:
  "normalize_weights [] = Inr []
   \<and> sum_list (map snd ([] :: (string \<times> real) list)) \<noteq> 1
   \<and> returned (generate_mixed_signal \<lparr>sampling_rate = 250, eeg_rng = steady 0 0\<rparr> (1/250)
        (Some []) 0) = Some [0]
   \<and> raised (generate_mixed_signal \<lparr>sampling_rate = 250, eeg_rng = steady 0 0\<rparr> 1
        (Some [(''alpha'', 1), (''beta'', - 1)]) (1/10)) = Some ZeroDivisionError"
  by (simp add: normalize_weights_def generate_mixed_signal_def py_int_def Let_def
        returned_def raised_def)

section \<open>Refractory spike trains\<close>

lemma refractory_loop_gaps:
  assumes "refractory_loop rate duration rp dt g t last_spike acc = Some r"
  shows "successively (\<lambda>a b. rp \<le> b - a) acc \<and> (acc \<noteq> [] \<longrightarrow> last acc = last_spike) \<longrightarrow>
     successively (\<lambda>a b. rp \<le> b - a) (fst r)"
proof (rule refractory_loop.raw_induct
    [where P = "\<lambda>rate duration rp dt g t last_spike acc r.
       successively (\<lambda>a b. rp \<le> b - a) acc \<and> (acc \<noteq> [] \<longrightarrow> last acc = last_spike) \<longrightarrow>
       successively (\<lambda>a b. rp \<le> b - a) (fst r)", OF _ assms])
  fix loop :: "real \<Rightarrow> real \<Rightarrow> real \<Rightarrow> real \<Rightarrow> RandomState \<Rightarrow> real \<Rightarrow> real \<Rightarrow> real list
     \<Rightarrow> (real list \<times> RandomState) option"
  fix rate duration rp dt g t last_spike acc r
  assume ih: "\<And>rate duration rp dt g t last_spike acc r.
       loop rate duration rp dt g t last_spike acc = Some r \<Longrightarrow>
       successively (\<lambda>a b. rp \<le> b - a) acc \<and> (acc \<noteq> [] \<longrightarrow> last acc = last_spike) \<longrightarrow>
       successively (\<lambda>a b. rp \<le> b - a) (fst r)"
  assume eq: "(if t < duration
      then if rp \<le> t - last_spike
           then case random_sample g of
                (u, g') \<Rightarrow>
                  if u < rate * dt
                  then loop rate duration rp dt g' (t + dt) t (acc @ [t])
                  else loop rate duration rp dt g' (t + dt) last_spike acc
           else loop rate duration rp dt g (t + dt) last_spike acc
      else Some (acc, g)) = Some r"
  show "successively (\<lambda>a b. rp \<le> b - a) acc \<and> (acc \<noteq> [] \<longrightarrow> last acc = last_spike) \<longrightarrow>
       successively (\<lambda>a b. rp \<le> b - a) (fst r)"
  proof (cases "t < duration")
    case False
    with eq show ?thesis by auto
  next
    case True
    note lt = this
    show ?thesis
    proof (cases "rp \<le> t - last_spike")
      case False
      with lt eq have "loop rate duration rp dt g (t + dt) last_spike acc = Some r" by simp
      from ih [OF this] show ?thesis by simp
    next
      case True
      note el = this
      obtain u g' where u: "random_sample g = (u, g')" by (cases "random_sample g")
      show ?thesis
      proof (cases "u < rate * dt")
        case False
        with lt el u eq have "loop rate duration rp dt g' (t + dt) last_spike acc = Some r"
          by simp
        from ih [OF this] show ?thesis by simp
      next
        case True
        with lt el u eq have "loop rate duration rp dt g' (t + dt) t (acc @ [t]) = Some r"
          by simp
        from ih [OF this] el show ?thesis
          by (auto simp: successively_append_iff)
      qed
    qed
  qed
qed

lemma refractory_loop_terminates:
  assumes "0 < dt"
  shows "\<exists>r. refractory_loop rate duration rp dt g t last_spike acc = Some r"
proof (induction "nat \<lceil>(duration - t) / dt\<rceil>" arbitrary: g t last_spike acc)
  case 0
  then have "(duration - t) / dt \<le> 0" by simp
  then have "\<not> t < duration" using assms by (simp add: pos_divide_le_eq)
  then show ?case by (subst refractory_loop.simps) simp
next
  case (Suc k)
  show ?case
  proof (cases "t < duration")
    case False
    then show ?thesis by (subst refractory_loop.simps) simp
  next
    case True
    have "(duration - (t + dt)) / dt = (duration - t) / dt - 1"
      using assms by (simp add: field_simps)
    then have "nat \<lceil>(duration - (t + dt)) / dt\<rceil> = nat (\<lceil>(duration - t) / dt\<rceil> - 1)"
      by simp
    with Suc(2) have k: "k = nat \<lceil>(duration - (t + dt)) / dt\<rceil>" by simp
    note ih = Suc(1) [OF k]
    obtain u g' where u: "random_sample g = (u, g')" by (cases "random_sample g")
    show ?thesis
      using True u ih [of g last_spike acc] ih [of g' last_spike acc] ih [of g' t "acc @ [t]"]
      by (subst refractory_loop.simps) auto
  qed
qed

lemma refractory_example:
  "returned (refractory_spikes \<lparr>rng = steady 0 0\<rparr> 1000 (5/1000) (2/1000) (1/1000)) =
     Some [0, 2/1000, 4/1000]"
  by (simp add: refractory_spikes_def refractory_loop.simps random_sample_def steady_def
        skip_doubles_def returned_def)

text \<open>
  Claim C7.  Whatever the rate, duration, refractory period, time step and random
  stream, any two consecutive spike times \<open>refractory_spikes\<close> returns differ by at
  least the refractory period.  The call never raises, and it returns whenever
  \<open>dt > 0\<close>.
\<close>

theorem C7_refractory_gap:
  "(0 < dt \<longrightarrow> (\<exists>ts s. refractory_spikes self rate duration rp dt = Returns ts s))
   \<and> (\<forall>ts s. refractory_spikes self rate duration rp dt = Returns ts s \<longrightarrow>
          (\<forall>i. Suc i < length ts \<longrightarrow> rp \<le> ts ! Suc i - ts ! i))
   \<and> (\<forall>e s. refractory_spikes self rate duration rp dt \<noteq> Raises e s)"
proof (intro conjI impI allI)
  assume "0 < dt"
  from refractory_loop_terminates [OF this, of rate duration rp "rng self" 0 "- rp" "[]"]
  show "\<exists>ts s. refractory_spikes self rate duration rp dt = Returns ts s"
    by (auto simp: refractory_spikes_def)
next
  fix ts s i
  assume r: "refractory_spikes self rate duration rp dt = Returns ts s" and i: "Suc i < length ts"
  from r obtain g where "refractory_loop rate duration rp dt (rng self) 0 (- rp) [] = Some (ts, g)"
    by (auto simp: refractory_spikes_def split: option.splits)
  from refractory_loop_gaps [OF this] have "successively (\<lambda>a b. rp \<le> b - a) ts" by simp
  with i show "rp \<le> ts ! Suc i - ts ! i"
    by (simp add: successively_conv_nth)
next
  fix e s
  show "refractory_spikes self rate duration rp dt \<noteq> Raises e s"
    by (simp add: refractory_spikes_def split: option.splits)
qed

theorem C7_witness:
  "\<exists>ts s. refractory_spikes \<lparr>rng = steady 0 0\<rparr> 1000 (5/1000) (2/1000) (1/1000) = Returns ts s
      \<and> ts = [0, 2/1000, 4/1000]
      \<and> 2/1000 \<le> ts ! Suc 0 - ts ! 0 \<and> 2/1000 \<le> ts ! Suc (Suc 0) - ts ! Suc 0"
proof -
  note c7 = C7_refractory_gap [of "1/1000" "\<lparr>rng = steady 0 0\<rparr>" 1000 "5/1000" "2/1000"]
  from c7 obtain ts s where
    r: "refractory_spikes \<lparr>rng = steady 0 0\<rparr> 1000 (5/1000) (2/1000) (1/1000) = Returns ts s"
    by auto
  with refractory_example have ts: "ts = [0, 2/1000, 4/1000]"
    by (simp add: returned_def)
  from c7 r have g: "\<forall>i. Suc i < length ts \<longrightarrow> 2/1000 \<le> ts ! Suc i - ts ! i"
    by blast
  have "2/1000 \<le> ts ! Suc 0 - ts ! 0" using g [rule_format, of 0] ts by simp
  moreover have "2/1000 \<le> ts ! Suc (Suc 0) - ts ! Suc 0" using g [rule_format, of "Suc 0"] ts by simp
  ultimately show ?thesis using r ts by blast
qed

section \<open>Burst spike trains\<close>

lemma burst_of_bounds:
  assumes "x \<in> set (burst_of spb duration iv b)" "0 \<le> iv"
  shows "b \<le> x \<and> x \<le> b + (real_of_int spb - 1) * iv \<and> x < duration"
proof -
  from assms(1) obtain i where i: "i < nat spb" "x = b + real i * iv" "x < duration"
    by (auto simp: burst_of_def)
  then have "real i \<le> real_of_int spb - 1" by linarith
  then have "real i * iv \<le> (real_of_int spb - 1) * iv"
    using assms(2) by (rule mult_right_mono)
  moreover have "0 \<le> real i * iv" using assms(2) by simp
  ultimately show ?thesis using i by simp
qed

lemma burst_of_sorted:
  assumes "0 \<le> iv"
  shows "sorted (burst_of spb duration iv b)"
proof -
  have "sorted_wrt (\<lambda>i j. b + real i * iv \<le> b + real j * iv) [0..<nat spb]"
  proof (rule sorted_wrt_mono_rel [OF _ sorted_wrt_upt])
    fix i j :: nat
    assume "i < j"
    then have "real i * iv \<le> real j * iv" using assms by (intro mult_right_mono) simp_all
    then show "b + real i * iv \<le> b + real j * iv" by simp
  qed
  then have "sorted (map (\<lambda>i. b + real i * iv) [0..<nat spb])"
    by (simp add: sorted_wrt_map)
  then show ?thesis
    unfolding burst_of_def by (rule sorted_wrt_filter)
qed

lemma bursts_sorted:
  assumes "sorted_wrt (\<lambda>a b. a + dt \<le> b) onsets" "0 \<le> iv" "(real_of_int spb - 1) * iv < dt"
  shows "sorted (concat (map (burst_of spb duration iv) onsets))"
  using assms(1)
proof (induction onsets)
  case Nil
  then show ?case by simp
next
  case (Cons b onsets)
  have "x \<le> y" if x: "x \<in> set (burst_of spb duration iv b)"
    and y: "y \<in> set (concat (map (burst_of spb duration iv) onsets))" for x y
  proof -
    from y obtain b' where b': "b' \<in> set onsets" "y \<in> set (burst_of spb duration iv b')"
      by auto
    from burst_of_bounds [OF x assms(2)] have "x < b + dt" using assms(3) by linarith
    moreover from Cons.prems b'(1) have "b + dt \<le> b'" by simp
    moreover from burst_of_bounds [OF b'(2) assms(2)] have "b' \<le> y" by simp
    ultimately show ?thesis by linarith
  qed
  moreover have "sorted (concat (map (burst_of spb duration iv) onsets))"
    using Cons by simp
  ultimately show ?case
    using burst_of_sorted [OF assms(2)] by (auto simp: sorted_append)
qed

lemma poisson_onsets_spaced:
  assumes "0 < dt" "poisson_spikes self rate duration dt = Returns onsets s"
  shows "sorted_wrt (\<lambda>a b. a + dt \<le> b) onsets"
proof -
  from assms obtain bins where o: "onsets = map (\<lambda>i. real i * dt) bins"
    and b: "sorted_wrt (<) bins"
    by (auto simp: poisson_spikes_def Let_def sorted_wrt_filter split: sum.splits)
  have "sorted_wrt (\<lambda>i j. real i * dt + dt \<le> real j * dt) bins"
  proof (rule sorted_wrt_mono_rel [OF _ b])
    fix i j :: nat
    assume "i < j"
    then have "real i + 1 \<le> real j" by linarith
    then have "(real i + 1) * dt \<le> real j * dt" using assms(1) by (intro mult_right_mono) simp_all
    then show "real i * dt + dt \<le> real j * dt" by (simp add: algebra_simps)
  qed
  then show ?thesis by (simp add: o sorted_wrt_map)
qed

lemma burst_spikes_returns:
  assumes "burst_spikes self br spb duration iv dt = Returns ts s"
  shows "\<exists>onsets. poisson_spikes self br duration dt = Returns onsets s
           \<and> ts = sort (concat (map (burst_of spb duration iv) onsets))"
  using assms by (auto simp: burst_spikes_def split: result.splits)

lemma upt_4: "[0..<4] = [0, 1, 2, 3]"
  by (simp add: eval_nat_numeral)

lemma burst_example:
  "returned (burst_spikes \<lparr>rng = two_then_none\<rparr> 2 2 1 (2/5) (1/4)) = Some [0, 1/4, 2/5, 13/20]"
  by (simp add: burst_spikes_def poisson_spikes_def random_samples_def py_int_def Let_def
        two_then_none_def burst_of_def returned_def upt_4 upt_nat_2)

lemma poisson_example:
  "returned (poisson_spikes \<lparr>rng = two_then_none\<rparr> 2 1 (1/4)) = Some [0, 1/4]"
  by (simp add: poisson_spikes_def random_samples_def py_int_def Let_def
        two_then_none_def returned_def upt_4)

text \<open>
  Claim C5, as the code has it.  What \<open>burst_spikes\<close> returns is sorted ascending,
  every time in it is below \<open>duration\<close>, and it holds exactly the times
  \<open>onset + i * intraburst_interval\<close>, \<open>i < spikes_per_burst\<close>, that are below
  \<open>duration\<close>: every spike of a burst the duration does not truncate is there, each
  \<open>intraburst_interval\<close> after the one before it in its burst.  The spikes of a burst
  are consecutive entries of the output when bursts cannot overlap
  (\<open>0 \<le> intraburst_interval\<close> and \<open>(spikes_per_burst - 1) * intraburst_interval < dt\<close>);
  then the output is the bursts one after the other.  The call returns whenever
  \<open>dt > 0\<close> and \<open>duration \<ge> 0\<close>.
\<close>

theorem C5_burst_spikes:
  "(0 < dt \<and> 0 \<le> duration \<longrightarrow> (\<exists>ts s. burst_spikes self br spb duration iv dt = Returns ts s))
   \<and> (\<forall>ts s. burst_spikes self br spb duration iv dt = Returns ts s \<longrightarrow>
         sorted ts \<and> (\<forall>t \<in> set ts. t < duration)
         \<and> (\<exists>onsets. poisson_spikes self br duration dt = Returns onsets s
              \<and> mset ts = mset (concat (map (burst_of spb duration iv) onsets))
              \<and> (\<forall>b \<in> set onsets. \<forall>i < nat spb.
                    b + real i * iv < duration \<longrightarrow> b + real i * iv \<in> set ts)
              \<and> (0 < dt \<and> 0 \<le> iv \<and> (real_of_int spb - 1) * iv < dt \<longrightarrow>
                    ts = concat (map (burst_of spb duration iv) onsets))))"
proof (intro conjI impI allI)
  assume "0 < dt \<and> 0 \<le> duration"
  then have "dt \<noteq> 0" "0 \<le> py_int (duration / dt)"
    by (simp_all add: py_int_def)
  from poisson_spikes_returns [OF this, of self br]
  show "\<exists>ts s. burst_spikes self br spb duration iv dt = Returns ts s"
    by (simp add: burst_spikes_def)
next
  fix ts s
  assume r: "burst_spikes self br spb duration iv dt = Returns ts s"
  from burst_spikes_returns [OF r] obtain onsets where
    p: "poisson_spikes self br duration dt = Returns onsets s"
    and ts: "ts = sort (concat (map (burst_of spb duration iv) onsets))"
    by blast
  show "sorted ts" by (simp add: ts)
  show "\<forall>t \<in> set ts. t < duration" by (auto simp: ts burst_of_def)
  have m: "mset ts = mset (concat (map (burst_of spb duration iv) onsets))"
    by (simp add: ts)
  have "b + real i * iv \<in> set (burst_of spb duration iv b)"
    if "i < nat spb" "b + real i * iv < duration" for b i
    using that by (auto simp: burst_of_def intro!: image_eqI [where x = i])
  then have i: "\<forall>b \<in> set onsets. \<forall>i < nat spb.
             b + real i * iv < duration \<longrightarrow> b + real i * iv \<in> set ts"
    unfolding ts by (simp only: set_sort set_concat set_map) blast
  have c: "ts = concat (map (burst_of spb duration iv) onsets)"
    if "0 < dt \<and> 0 \<le> iv \<and> (real_of_int spb - 1) * iv < dt"
  proof -
    from that p have "sorted_wrt (\<lambda>a b. a + dt \<le> b) onsets"
      by (intro poisson_onsets_spaced) auto
    with that have "sorted (concat (map (burst_of spb duration iv) onsets))"
      by (intro bursts_sorted) auto
    then show ?thesis by (simp add: ts sorted_sort_id)
  qed
  from p m i c
  show "\<exists>onsets. poisson_spikes self br duration dt = Returns onsets s
              \<and> mset ts = mset (concat (map (burst_of spb duration iv) onsets))
              \<and> (\<forall>b \<in> set onsets. \<forall>i < nat spb.
                    b + real i * iv < duration \<longrightarrow> b + real i * iv \<in> set ts)
              \<and> (0 < dt \<and> 0 \<le> iv \<and> (real_of_int spb - 1) * iv < dt \<longrightarrow>
                    ts = concat (map (burst_of spb duration iv) onsets))"
    by blast
qed

theorem C5_witness:
  "\<exists>ts s. burst_spikes \<lparr>rng = two_then_none\<rparr> 2 2 1 (1/10) (1/4) = Returns ts s
      \<and> sorted ts \<and> ts = [0, 1/10, 1/4, 7/20]"
proof -
  note c5 = C5_burst_spikes [of "1/4" 1 "\<lparr>rng = two_then_none\<rparr>" 2 2 "1/10"]
  from c5 obtain ts s where
    r: "burst_spikes \<lparr>rng = two_then_none\<rparr> 2 2 1 (1/10) (1/4) = Returns ts s"
    by auto
  with c5 obtain onsets where s: "sorted ts"
    and p: "poisson_spikes \<lparr>rng = two_then_none\<rparr> 2 1 (1/4) = Returns onsets s"
    and c: "(0::real) < 1/4 \<and> (0::real) \<le> 1/10 \<and> (real_of_int 2 - 1) * (1/10) < (1/4 :: real) \<longrightarrow>
              ts = concat (map (burst_of 2 1 (1/10)) onsets)"
    by blast
  from p poisson_example have "onsets = [0, 1/4]" by (simp add: returned_def)
  with c have "ts = [0, 1/10, 1/4, 7/20]"
    by (simp add: burst_of_def upt_nat_2)
  with r s show ?thesis by blast
qed

text \<open>
  Two bursts of two spikes, with onsets \<open>0\<close> and \<open>1/4\<close> and an interval of \<open>2/5\<close>,
  neither truncated: they interleave, and no two consecutive entries of the output are
  \<open>2/5\<close> apart.
\<close>

theorem C5_counterexample:
  "returned (poisson_spikes \<lparr>rng = two_then_none\<rparr> 2 1 (1/4)) = Some [0, 1/4]
   \<and> returned (burst_spikes \<lparr>rng = two_then_none\<rparr> 2 2 1 (2/5) (1/4)) = Some [0, 1/4, 2/5, 13/20]
   \<and> (0::real) + 1 * (2/5) < 1 \<and> (1/4 :: real) + 1 * (2/5) < 1
   \<and> [0, 1/4, 2/5, 13/20 :: real] ! 1 - [0, 1/4, 2/5, 13/20] ! 0 \<noteq> 2/5
   \<and> [0, 1/4, 2/5, 13/20 :: real] ! 2 - [0, 1/4, 2/5, 13/20] ! 1 \<noteq> 2/5
   \<and> [0, 1/4, 2/5, 13/20 :: real] ! 3 - [0, 1/4, 2/5, 13/20] ! 2 \<noteq> 2/5"
  using poisson_example burst_example by simp

section \<open>Where the roll comes from\<close>

lemma generate_band_returns:
  assumes "map_of BANDS band \<noteq> None" "0 \<le> py_int (duration * sampling_rate self)"
  shows "\<exists>sig s. generate_band self band duration amp = Returns sig s
           \<and> length sig = nat (py_int (duration * sampling_rate self))
           \<and> sampling_rate s = sampling_rate self"
  using assms
  by (auto simp: generate_band_def uniform_n_def Let_def split: option.splits)

lemma add_bands_returns:
  assumes "\<forall>b \<in> fst ` set ws. map_of BANDS b \<noteq> None"
    and "0 \<le> py_int (duration * sampling_rate self)"
    and "length sig = nat (py_int (duration * sampling_rate self))"
  shows "\<exists>sig' s. add_bands self duration ws sig = Returns sig' s
           \<and> length sig' = length sig \<and> sampling_rate s = sampling_rate self"
  using assms
proof (induction ws arbitrary: self sig)
  case Nil
  then show ?case by simp
next
  case (Cons p ws)
  obtain b w where p: "p = (b, w)" by (cases p)
  show ?case
  proof (cases "w > 0")
    case False
    with Cons show ?thesis by (simp add: p)
  next
    case True
    from Cons.prems p have "map_of BANDS b \<noteq> None" by simp
    from generate_band_returns [OF this Cons.prems(2), of w]
    obtain bs s where g: "generate_band self b duration w = Returns bs s"
      "length bs = nat (py_int (duration * sampling_rate self))"
      "sampling_rate s = sampling_rate self"
      by blast
    let ?sig = "map (\<lambda>(a, b). a + b) (zip sig bs)"
    have l: "length ?sig = length sig" using g(2) Cons.prems(3) by simp
    have "\<exists>sig' s'. add_bands s duration ws ?sig = Returns sig' s'
           \<and> length sig' = length ?sig \<and> sampling_rate s' = sampling_rate s"
      using Cons.prems g(3) l by (intro Cons.IH) simp_all
    then show ?thesis
      using True g l by (auto simp: p)
  qed
qed

lemma state_profiles_wellformed:
  "\<forall>profile \<in> snd ` set state_profiles.
     sum_list (map snd profile) \<noteq> 0 \<and> fst ` set profile \<subseteq> fst ` set BANDS"
  by (simp add: state_profiles_def BANDS_def)

lemma profile_weights:
  assumes "map_of state_profiles state = Some profile"
  shows "\<exists>w. normalize_weights profile = Inr w \<and> (\<forall>b \<in> fst ` set w. map_of BANDS b \<noteq> None)"
proof -
  let ?w = "map (\<lambda>(k, v). (k, v / sum_list (map snd profile))) profile"
  from assms have "profile \<in> snd ` set state_profiles"
    by (auto dest: map_of_SomeD intro: rev_image_eqI)
  with state_profiles_wellformed
  have t: "sum_list (map snd profile) \<noteq> 0" and k: "fst ` set profile \<subseteq> fst ` set BANDS"
    by blast+
  have "fst ` set ?w = fst ` set profile"
    by (force simp: image_iff)
  with k have "\<forall>b \<in> fst ` set ?w. map_of BANDS b \<noteq> None"
    by (auto simp only: map_of_eq_None_iff)
  with normalize_weights_total(1) [OF t] show ?thesis by blast
qed

lemma generate_mental_state_returns:
  assumes "map_of state_profiles state \<noteq> None"
    and "0 \<le> py_int (duration * sampling_rate self)"
  shows "\<exists>sig s. generate_mental_state self state duration = Returns sig s
           \<and> length sig = nat (py_int (duration * sampling_rate self))
           \<and> sampling_rate s = sampling_rate self"
proof -
  from assms(1) obtain profile where pr: "map_of state_profiles state = Some profile" by auto
  from profile_weights [OF pr] obtain w where
    w: "normalize_weights profile = Inr w" "\<forall>b \<in> fst ` set w. map_of BANDS b \<noteq> None"
    by blast
  let ?n = "nat (py_int (duration * sampling_rate self))"
  from add_bands_returns [OF w(2) assms(2), of "replicate ?n 0"]
  obtain sig' s where a: "add_bands self duration w (replicate ?n 0) = Returns sig' s"
    "length sig' = ?n" "sampling_rate s = sampling_rate self"
    by auto
  then show ?thesis
    using pr w(1) assms(2)
    by (simp add: generate_mental_state_def generate_mixed_signal_def Let_def normal_def)
qed

lemma montage_loop_returns:
  assumes "map_of state_profiles state \<noteq> None"
    and "0 < py_int (duration * sampling_rate self)"
  shows "\<exists>cds s. montage_loop self channels duration state acc = Returns (acc @ cds) s
           \<and> map channel_name cds = channels"
  using assms(2)
proof (induction channels arbitrary: self acc)
  case Nil
  then show ?case by simp
next
  case (Cons c channels)
  from Cons.prems have n: "0 \<le> py_int (duration * sampling_rate self)" by simp
  from generate_mental_state_returns [OF assms(1) n]
  obtain sig s where g: "generate_mental_state self state duration = Returns sig s"
    "length sig = nat (py_int (duration * sampling_rate self))"
    "sampling_rate s = sampling_rate self"
    by blast
  from g(2) Cons.prems have ne: "sig \<noteq> []" by auto
  let ?cd = "\<lparr>channel_name = c, signal = sig,
                  time = map (\<lambda>k. real k / sampling_rate s) [0..<length sig],
                  ch_sampling_rate = sampling_rate s, ch_duration = duration,
                  n_samples = length sig, ch_state = state,
                  mean_amplitude = sum_list (map abs sig) / real (length sig),
                  peak_amplitude = Max (set (map abs sig))\<rparr>"
  have cd: "generate_channel_data self c duration state (1/10) = Returns ?cd s"
    using g(1) ne by (simp add: generate_channel_data_def)
  from Cons.prems g(3) have "0 < py_int (duration * sampling_rate s)" by simp
  from Cons.IH [OF this, of "acc @ [?cd]"]
  obtain cds s' where r: "montage_loop s channels duration state (acc @ [?cd]) =
      Returns ((acc @ [?cd]) @ cds) s'" "map channel_name cds = channels"
    by blast
  have "montage_loop self (c # channels) duration state acc = Returns (acc @ (?cd # cds)) s'"
    using cd r(1) by simp
  moreover have "map channel_name (?cd # cds) = c # channels" using r(2) by simp
  ultimately show ?case
    by (intro exI [of _ "?cd # cds"] exI [of _ s'] conjI)
qed

lemma simulate_activity_returns:
  assumes "map_of state_profiles state \<noteq> None"
    and "0 < py_int (duration * sampling_rate (eeg_gen m))"
    and "- (1/1000) < duration \<or> n_neurons m \<le> 0"
  shows "\<exists>act m'. simulate_activity m duration state rr = Returns act m'
           \<and> act_state act = state \<and> intuition act = None"
proof -
  from generate_population_poisson [OF assms(3), of "spike_gen m" rr]
  obtain pop s where p: "generate_population (spike_gen m) (n_neurons m) rr duration ''poisson'' = Returns pop s"
    by blast
  from montage_loop_returns [OF assms(1,2), of "eeg_channels m" "[]"]
  obtain cds eg where "generate_montage (eeg_gen m) (eeg_channels m) duration state = Returns cds eg"
    by (auto simp: generate_montage_def)
  with p show ?thesis
    by (simp add: simulate_activity_def Let_def)
qed

lemma classify_state: "map_of state_profiles (fst (snd (classify r w d))) \<noteq> None"
  by (simp add: classify_def Let_def state_profiles_def)

lemma intuition_signal_returns:
  assumes "0 < py_int (duration * sampling_rate (eeg_gen m))"
    and "- (1/1000) < duration \<or> n_neurons m \<le> 0"
  shows "\<exists>act m'. generate_intuition_signal g m difficulty wisdom duration =
             Returns act (m', skip_ints 1 g)
           \<and> intuition act = Some (fst (classify (1 + int (ints g 0 mod 20)) wisdom difficulty))
           \<and> act_state act = fst (snd (classify (1 + int (ints g 0 mod 20)) wisdom difficulty))"
proof -
  let ?roll = "1 + int (ints g 0 mod 20)"
  obtain idata st rr where c: "classify ?roll wisdom difficulty = (idata, st, rr)"
    by (cases "classify ?roll wisdom difficulty")
  have "map_of state_profiles st \<noteq> None"
    using classify_state [of ?roll wisdom difficulty] c by simp
  from simulate_activity_returns [OF this assms, of rr]
  obtain act m' where "simulate_activity m duration st rr = Returns act m'" "act_state act = st"
    by blast
  then show ?thesis
    using c by (simp add: generate_intuition_signal_def randint_def)
qed

text \<open>
  Claim C1 on the code.  Two models built from the same seed receive the same call,
  one after the other in one process.  The roll of each is the next draw of numpy's
  process-wide generator, whatever the seed: the first model rolls \<open>3\<close> and simulates a
  drowsy state, the second rolls \<open>17\<close> and simulates a focused one.
\<close>

theorem C1_roll_from_process_generator:
  "map_option (\<lambda>act. (map_option d20_roll (intuition act), act_state act))
       (returned (generate_intuition_signal np_random_example (example_model 100 None) 10 10 1))
     = Some (Some 3, ''drowsy'')
   \<and> map_option snd
       (state_after (generate_intuition_signal np_random_example (example_model 100 None) 10 10 1))
     = Some (skip_ints 1 np_random_example)
   \<and> map_option (\<lambda>act. (map_option d20_roll (intuition act), act_state act))
       (returned (generate_intuition_signal (skip_ints 1 np_random_example)
                    (example_model 100 None) 10 10 1))
     = Some (Some 17, ''focused'')"
proof -
  have m: "0 < py_int (1 * sampling_rate (eeg_gen (example_model 100 None)))"
          "- (1/1000) < (1::real) \<or> n_neurons (example_model 100 None) \<le> 0"
    by (simp_all add: example_model_def BrainModel_init_def EEGGenerator_init_def py_int_def)
  from intuition_signal_returns [OF m, of np_random_example 10 10]
  obtain a1 m1 where 1: "generate_intuition_signal np_random_example (example_model 100 None) 10 10 1
      = Returns a1 (m1, skip_ints 1 np_random_example)"
    "intuition a1 = Some (fst (classify (1 + int (ints np_random_example 0 mod 20)) 10 10))"
    "act_state a1 = fst (snd (classify (1 + int (ints np_random_example 0 mod 20)) 10 10))"
    by blast
  from intuition_signal_returns [OF m, of "skip_ints 1 np_random_example" 10 10]
  obtain a2 m2 where 2: "generate_intuition_signal (skip_ints 1 np_random_example)
        (example_model 100 None) 10 10 1
      = Returns a2 (m2, skip_ints 1 (skip_ints 1 np_random_example))"
    "intuition a2 = Some (fst (classify (1 + int (ints (skip_ints 1 np_random_example) 0 mod 20)) 10 10))"
    "act_state a2 = fst (snd (classify (1 + int (ints (skip_ints 1 np_random_example) 0 mod 20)) 10 10))"
    by blast
  show ?thesis
    using 1 2
    by (simp add: returned_def state_after_def classify_def Let_def np_random_example_def
          skip_ints_def)
qed

text \<open>
  The classification of a roll of 17 with wisdom 18 against difficulty 10, and of a roll
  of 3 with wisdom 8 against difficulty 15, the latter also as a call returns it.
\<close>

theorem C2_witness:
  "classify 17 18 10 =
     (\<lparr>d20_roll = 17, wisdom_modifier = 4, total_score = 21, difficulty_class = 10,
       success = True, character_wisdom = 18\<rparr>, ''focused'', (30, 60))
   \<and> classify 3 8 15 =
     (\<lparr>d20_roll = 3, wisdom_modifier = - 1, total_score = 2, difficulty_class = 15,
       success = False, character_wisdom = 8\<rparr>, ''drowsy'', (5, 20))
   \<and> map_option (\<lambda>act. (intuition act, act_state act))
        (returned (generate_intuition_signal np_random_example (example_model 100 None) 15 8 1))
     = Some (Some \<lparr>d20_roll = 3, wisdom_modifier = - 1, total_score = 2, difficulty_class = 15,
                   success = False, character_wisdom = 8\<rparr>, ''drowsy'')"
proof -
  have f: "\<lfloor>- 1 :: real\<rfloor> = - 1"
    by (simp add: floor_eq_iff)
  note a = C2_outcome_classification [of 17 18 10]
  note b = C2_outcome_classification
             [of 3 8 15 np_random_example "example_model 100 None" 1]
  have c: "classify 3 8 15 =
     (\<lparr>d20_roll = 3, wisdom_modifier = - 1, total_score = 2, difficulty_class = 15,
       success = False, character_wisdom = 8\<rparr>, ''drowsy'', (5, 20))"
    using b by (simp add: Let_def f)
  have m: "0 < py_int (1 * sampling_rate (eeg_gen (example_model 100 None)))"
          "- (1/1000) < (1::real) \<or> n_neurons (example_model 100 None) \<le> 0"
    by (simp_all add: example_model_def BrainModel_init_def EEGGenerator_init_def py_int_def)
  from intuition_signal_returns [OF m, of np_random_example 15 8]
  obtain act s where r: "generate_intuition_signal np_random_example (example_model 100 None) 15 8 1
      = Returns act s"
    by blast
  have roll: "fst (randint np_random_example 1 21) = 3"
    by (simp add: randint_def np_random_example_def)
  from b r have "intuition act = Some (fst (classify (fst (randint np_random_example 1 21)) 8 15))"
    "act_state act = fst (snd (classify (fst (randint np_random_example 1 21)) 8 15))"
    by blast+
  with roll c have "intuition act = Some \<lparr>d20_roll = 3, wisdom_modifier = - 1, total_score = 2,
       difficulty_class = 15, success = False, character_wisdom = 8\<rparr>"
    "act_state act = ''drowsy''"
    by simp_all
  with r a c show ?thesis
    by (simp add: returned_def Let_def)
qed

section \<open>Range arguments, mode by mode\<close>

lemma poisson_spikes_empty:
  assumes "0 < dt" "- dt < duration" "duration \<le> 0"
  shows "poisson_spikes self rate duration dt = Returns [] self"
proof -
  have "- 1 < duration / dt" "duration / dt \<le> 0"
    using assms by (simp_all add: pos_less_divide_eq pos_divide_le_eq)
  then have z: "py_int (duration / dt) = 0" by (rule py_int_zero)
  show ?thesis
    using assms(1) poisson_spikes_returns [of dt duration self rate] by (simp add: z)
qed

lemma poisson_spikes_negative:
  assumes "0 < dt" "duration \<le> - dt"
  shows "poisson_spikes self rate duration dt = Raises NegativeDimensions self"
proof -
  have "duration / dt \<le> - 1"
    using assms by (simp add: pos_divide_le_eq)
  then have "py_int (duration / dt) < 0" by (rule py_int_neg)
  then show ?thesis
    using assms(1) by (simp add: poisson_spikes_def random_samples_def Let_def)
qed

lemma refractory_spikes_empty:
  assumes "duration \<le> 0"
  shows "refractory_spikes self rate duration rp dt = Returns [] self"
proof -
  have "refractory_loop rate duration rp dt (rng self) 0 (- rp) [] = Some ([], rng self)"
    using assms by (subst refractory_loop.simps) simp
  then show ?thesis by (simp add: refractory_spikes_def)
qed

lemma train_refractory_returns:
  "\<exists>ts s. generate_spike_train self i rate duration ''refractory'' no_kwargs =
           Returns \<lparr>neuron_id = i, spike_times = ts, spike_count = length ts,
                    st_duration = duration, mode = ''refractory'',
                    firing_rate = (if duration > 0 then real (length ts) / duration else 0),
                    parameters = no_kwargs\<rparr> s
           \<and> (duration \<le> 0 \<longrightarrow> ts = [])"
proof (cases "duration \<le> 0")
  case True
  then show ?thesis
    by (simp add: generate_spike_train_def dispatch_mode_def no_kwargs_def or_default_def
          refractory_spikes_empty)
next
  case False
  have "(0::real) < 1/1000" by simp
  from refractory_loop_terminates [OF this, of rate duration "2/1000" "rng self" 0 "- (2/1000)" "[]"]
  obtain ts g where "refractory_loop rate duration (2/1000) (1/1000) (rng self) 0 (- (2/1000)) [] = Some (ts, g)"
    by auto
  then have "refractory_spikes self rate duration (2/1000) (1/1000) = Returns ts (self\<lparr>rng := g\<rparr>)"
    by (simp add: refractory_spikes_def)
  then show ?thesis
    using False
    by (simp add: generate_spike_train_def dispatch_mode_def no_kwargs_def or_default_def)
qed

lemma population_loop_returns:
  assumes "\<And>self i rate. \<exists>ts s. generate_spike_train self i rate duration md no_kwargs =
           Returns \<lparr>neuron_id = i, spike_times = ts, spike_count = length ts,
                    st_duration = duration, mode = md,
                    firing_rate = (if duration > 0 then real (length ts) / duration else 0),
                    parameters = no_kwargs\<rparr> s
           \<and> (duration \<le> 0 \<longrightarrow> ts = [])"
  shows "\<exists>trains s. population_loop self ids (low, high) duration md acc =
             Returns (acc @ trains) s
           \<and> map neuron_id trains = ids
           \<and> (\<forall>tr \<in> set trains. st_duration tr = duration \<and> mode tr = md
                 \<and> spike_count tr = length (spike_times tr)
                 \<and> (duration \<le> 0 \<longrightarrow> spike_times tr = [] \<and> firing_rate tr = 0))"
proof (induction ids arbitrary: self acc)
  case Nil
  then show ?case by simp
next
  case (Cons i ids)
  obtain rate g where u: "uniform (rng self) low high = (rate, g)"
    by (cases "uniform (rng self) low high")
  from assms [of "self\<lparr>rng := g\<rparr>" i rate]
  obtain ts s where t: "generate_spike_train (self\<lparr>rng := g\<rparr>) i rate duration md no_kwargs =
           Returns \<lparr>neuron_id = i, spike_times = ts, spike_count = length ts,
                    st_duration = duration, mode = md,
                    firing_rate = (if duration > 0 then real (length ts) / duration else 0),
                    parameters = no_kwargs\<rparr> s" and e: "duration \<le> 0 \<longrightarrow> ts = []"
    by blast
  let ?tr = "\<lparr>neuron_id = i, spike_times = ts, spike_count = length ts,
                    st_duration = duration, mode = md,
                    firing_rate = (if duration > 0 then real (length ts) / duration else 0),
                    parameters = no_kwargs\<rparr>"
  from Cons.IH [of s "acc @ [?tr]"]
  obtain trains s' where r: "population_loop s ids (low, high) duration md (acc @ [?tr]) =
             Returns ((acc @ [?tr]) @ trains) s'"
      "map neuron_id trains = ids"
      "\<forall>tr \<in> set trains. st_duration tr = duration \<and> mode tr = md
                 \<and> spike_count tr = length (spike_times tr)
                 \<and> (duration \<le> 0 \<longrightarrow> spike_times tr = [] \<and> firing_rate tr = 0)"
    by blast
  have "population_loop self (i # ids) (low, high) duration md acc =
          Returns (acc @ (?tr # trains)) s'"
    using u t r(1) by simp
  moreover have "map neuron_id (?tr # trains) = i # ids" using r(2) by simp
  moreover have "\<forall>tr \<in> set (?tr # trains). st_duration tr = duration \<and> mode tr = md
                 \<and> spike_count tr = length (spike_times tr)
                 \<and> (duration \<le> 0 \<longrightarrow> spike_times tr = [] \<and> firing_rate tr = 0)"
    using r(3) e by simp
  ultimately show ?case
    by (intro exI [of _ "?tr # trains"] exI [of _ s'] conjI)
qed

lemma generate_population_refractory:
  "\<exists>pop s. generate_population self n (low, high) duration ''refractory'' = Returns pop s
           \<and> map neuron_id pop = map int [0..<nat n]
           \<and> (\<forall>tr \<in> set pop. st_duration tr = duration \<and> mode tr = ''refractory''
                 \<and> spike_count tr = length (spike_times tr)
                 \<and> (duration \<le> 0 \<longrightarrow> spike_times tr = [] \<and> firing_rate tr = 0))"
  using population_loop_returns [of duration "''refractory''" self "map int [0..<nat n]" low high "[]",
          OF train_refractory_returns]
  by (simp add: generate_population_def)

lemma generate_population_first_raises:
  assumes "0 < n"
    and "\<And>self rate. generate_spike_train self 0 rate duration md no_kwargs = Raises e self"
  shows "generate_population self n (low, high) duration md =
           Raises e (self\<lparr>rng := skip_doubles 1 (rng self)\<rparr>)"
proof -
  from assms(1) have "[0..<nat n] = 0 # [1..<nat n]"
    by (simp add: upt_conv_Cons)
  then show ?thesis
    using assms(2) by (simp add: generate_population_def uniform_def)
qed

lemma train_burst_type_error:
  "generate_spike_train self i rate duration ''burst'' no_kwargs = Raises TypeError self"
  by (simp add: generate_spike_train_def dispatch_mode_def no_kwargs_def)

lemma train_poisson_negative:
  assumes "duration \<le> - (1/1000)"
  shows "generate_spike_train self i rate duration ''poisson'' no_kwargs =
           Raises NegativeDimensions self"
proof -
  have "poisson_spikes self rate duration (1/1000) = Raises NegativeDimensions self"
    using assms by (intro poisson_spikes_negative) simp_all
  then show ?thesis
    by (simp add: generate_spike_train_def dispatch_mode_def no_kwargs_def or_default_def)
qed

text \<open>
  Claim C3, as the code has it.  Neither \<open>generate_spike_train\<close> nor
  \<open>generate_population\<close> checks the rate range or the duration.
  \<^item> \<open>generate_spike_train\<close> in poisson mode, and in burst mode with
    \<open>spikes_per_burst\<close> given: a duration in \<open>(-dt, 0]\<close> returns a train with no
    spikes and firing rate \<open>0\<close>; a duration \<open>\<le> -dt\<close> fails with numpy's error for a
    negative array size.
  \<^item> \<open>generate_spike_train\<close> in refractory mode: every duration \<open>\<le> 0\<close> returns a
    train with no spikes.
  \<^item> \<open>generate_population\<close>, for every rate range, also one whose minimum exceeds its
    maximum: in poisson mode it returns one train per neuron for every duration above
    \<open>-0.001\<close> and fails with numpy's error below that when there is a neuron; in
    refractory mode it returns one train per neuron for every duration; in burst mode
    it raises \<open>TypeError\<close> when there is a neuron, since \<open>spikes_per_burst\<close> is not
    passed.  The trains of a duration \<open>\<le> 0\<close> have no spikes.
\<close>

theorem C3_no_range_validation:
  "(0 < or_default d (1/1000) \<and> - or_default d (1/1000) < duration \<and> duration \<le> 0 \<longrightarrow>
      generate_spike_train self nid rate duration ''poisson'' (no_kwargs\<lparr>kw_dt := d\<rparr>) =
        Returns \<lparr>neuron_id = nid, spike_times = [], spike_count = 0, st_duration = duration,
                 mode = ''poisson'', firing_rate = 0,
                 parameters = no_kwargs\<lparr>kw_dt := d\<rparr>\<rparr> self)
   \<and> (0 < or_default d (1/1000) \<and> duration \<le> - or_default d (1/1000) \<longrightarrow>
        generate_spike_train self nid rate duration ''poisson'' (no_kwargs\<lparr>kw_dt := d\<rparr>) =
          Raises NegativeDimensions self)
   \<and> (duration \<le> 0 \<longrightarrow>
        generate_spike_train self nid rate duration ''refractory''
            (no_kwargs\<lparr>kw_refractory_period := r, kw_dt := d\<rparr>) =
          Returns \<lparr>neuron_id = nid, spike_times = [], spike_count = 0, st_duration = duration,
                   mode = ''refractory'', firing_rate = 0,
                   parameters = no_kwargs\<lparr>kw_refractory_period := r, kw_dt := d\<rparr>\<rparr> self)
   \<and> (0 < or_default d (1/1000) \<and> - or_default d (1/1000) < duration \<and> duration \<le> 0 \<longrightarrow>
        generate_spike_train self nid rate duration ''burst''
            (no_kwargs\<lparr>kw_spikes_per_burst := Some spb, kw_intraburst_interval := iv,
                        kw_dt := d\<rparr>) =
          Returns \<lparr>neuron_id = nid, spike_times = [], spike_count = 0, st_duration = duration,
                   mode = ''burst'', firing_rate = 0,
                   parameters = no_kwargs\<lparr>kw_spikes_per_burst := Some spb,
                                           kw_intraburst_interval := iv, kw_dt := d\<rparr>\<rparr> self)
   \<and> (0 < or_default d (1/1000) \<and> duration \<le> - or_default d (1/1000) \<longrightarrow>
        generate_spike_train self nid rate duration ''burst''
            (no_kwargs\<lparr>kw_spikes_per_burst := Some spb, kw_intraburst_interval := iv,
                        kw_dt := d\<rparr>) =
          Raises NegativeDimensions self)
   \<and> ((md = ''poisson'' \<and> - (1/1000) < duration) \<or> md = ''refractory'' \<longrightarrow>
        (\<exists>pop s. generate_population self n (low, high) duration md = Returns pop s
           \<and> map neuron_id pop = map int [0..<nat n]
           \<and> (\<forall>tr \<in> set pop. st_duration tr = duration \<and> mode tr = md
                 \<and> spike_count tr = length (spike_times tr)
                 \<and> (duration \<le> 0 \<longrightarrow> spike_times tr = [] \<and> firing_rate tr = 0))))
   \<and> (0 < n \<and> duration \<le> - (1/1000) \<longrightarrow>
        generate_population self n (low, high) duration ''poisson'' =
          Raises NegativeDimensions (self\<lparr>rng := skip_doubles 1 (rng self)\<rparr>))
   \<and> (0 < n \<longrightarrow>
        generate_population self n (low, high) duration ''burst'' =
          Raises TypeError (self\<lparr>rng := skip_doubles 1 (rng self)\<rparr>))"
proof (intro conjI impI)
  assume "0 < or_default d (1/1000) \<and> - or_default d (1/1000) < duration \<and> duration \<le> 0"
  then have "poisson_spikes self rate duration (or_default d (1/1000)) = Returns [] self"
    and "duration \<le> 0"
    by (simp_all add: poisson_spikes_empty)
  then show "generate_spike_train self nid rate duration ''poisson'' (no_kwargs\<lparr>kw_dt := d\<rparr>) =
        Returns \<lparr>neuron_id = nid, spike_times = [], spike_count = 0, st_duration = duration,
                 mode = ''poisson'', firing_rate = 0,
                 parameters = no_kwargs\<lparr>kw_dt := d\<rparr>\<rparr> self"
    by (simp add: generate_spike_train_def dispatch_mode_def no_kwargs_def)
next
  assume "0 < or_default d (1/1000) \<and> duration \<le> - or_default d (1/1000)"
  then have "poisson_spikes self rate duration (or_default d (1/1000)) = Raises NegativeDimensions self"
    by (simp add: poisson_spikes_negative)
  then show "generate_spike_train self nid rate duration ''poisson'' (no_kwargs\<lparr>kw_dt := d\<rparr>) =
          Raises NegativeDimensions self"
    by (simp add: generate_spike_train_def dispatch_mode_def no_kwargs_def)
next
  assume "duration \<le> 0"
  then show "generate_spike_train self nid rate duration ''refractory''
            (no_kwargs\<lparr>kw_refractory_period := r, kw_dt := d\<rparr>) =
          Returns \<lparr>neuron_id = nid, spike_times = [], spike_count = 0, st_duration = duration,
                   mode = ''refractory'', firing_rate = 0,
                   parameters = no_kwargs\<lparr>kw_refractory_period := r, kw_dt := d\<rparr>\<rparr> self"
    by (simp add: generate_spike_train_def dispatch_mode_def no_kwargs_def refractory_spikes_empty)
next
  assume "0 < or_default d (1/1000) \<and> - or_default d (1/1000) < duration \<and> duration \<le> 0"
  then have "poisson_spikes self rate duration (or_default d (1/1000)) = Returns [] self"
    and "duration \<le> 0"
    by (simp_all add: poisson_spikes_empty)
  then show "generate_spike_train self nid rate duration ''burst''
            (no_kwargs\<lparr>kw_spikes_per_burst := Some spb, kw_intraburst_interval := iv,
                        kw_dt := d\<rparr>) =
          Returns \<lparr>neuron_id = nid, spike_times = [], spike_count = 0, st_duration = duration,
                   mode = ''burst'', firing_rate = 0,
                   parameters = no_kwargs\<lparr>kw_spikes_per_burst := Some spb,
                                           kw_intraburst_interval := iv, kw_dt := d\<rparr>\<rparr> self"
    by (simp add: generate_spike_train_def dispatch_mode_def no_kwargs_def burst_spikes_def)
next
  assume "0 < or_default d (1/1000) \<and> duration \<le> - or_default d (1/1000)"
  then have "poisson_spikes self rate duration (or_default d (1/1000)) = Raises NegativeDimensions self"
    by (simp add: poisson_spikes_negative)
  then show "generate_spike_train self nid rate duration ''burst''
            (no_kwargs\<lparr>kw_spikes_per_burst := Some spb, kw_intraburst_interval := iv,
                        kw_dt := d\<rparr>) =
          Raises NegativeDimensions self"
    by (simp add: generate_spike_train_def dispatch_mode_def no_kwargs_def burst_spikes_def)
next
  assume "(md = ''poisson'' \<and> - (1/1000) < duration) \<or> md = ''refractory''"
  then show "\<exists>pop s. generate_population self n (low, high) duration md = Returns pop s
           \<and> map neuron_id pop = map int [0..<nat n]
           \<and> (\<forall>tr \<in> set pop. st_duration tr = duration \<and> mode tr = md
                 \<and> spike_count tr = length (spike_times tr)
                 \<and> (duration \<le> 0 \<longrightarrow> spike_times tr = [] \<and> firing_rate tr = 0))"
    using generate_population_poisson [of duration n self "(low, high)"]
      generate_population_refractory [of self n low high duration]
    by auto
next
  assume "0 < n \<and> duration \<le> - (1/1000)"
  then show "generate_population self n (low, high) duration ''poisson'' =
          Raises NegativeDimensions (self\<lparr>rng := skip_doubles 1 (rng self)\<rparr>)"
    by (intro generate_population_first_raises) (simp_all add: train_poisson_negative)
next
  assume "0 < n"
  then show "generate_population self n (low, high) duration ''burst'' =
          Raises TypeError (self\<lparr>rng := skip_doubles 1 (rng self)\<rparr>)"
    by (intro generate_population_first_raises) (simp_all add: train_burst_type_error)
qed


theorem C3_witness:
  "returned (generate_spike_train \<lparr>rng = steady 0 0\<rparr> 3 20 0 ''poisson'' no_kwargs) =
     Some \<lparr>neuron_id = 3, spike_times = [], spike_count = 0, st_duration = 0,
           mode = ''poisson'', firing_rate = 0, parameters = no_kwargs\<rparr>
   \<and> raised (generate_spike_train \<lparr>rng = steady 0 0\<rparr> 3 20 (- 1) ''poisson''
       (no_kwargs\<lparr>kw_dt := Some (1/100)\<rparr>)) = Some NegativeDimensions
   \<and> returned (generate_spike_train \<lparr>rng = steady 0 0\<rparr> 3 20 (- 1) ''refractory'' no_kwargs) =
     Some \<lparr>neuron_id = 3, spike_times = [], spike_count = 0, st_duration = - 1,
           mode = ''refractory'', firing_rate = 0, parameters = no_kwargs\<rparr>
   \<and> returned (generate_spike_train \<lparr>rng = steady 0 0\<rparr> 3 20 0 ''burst''
       (no_kwargs\<lparr>kw_spikes_per_burst := Some 3\<rparr>)) =
     Some \<lparr>neuron_id = 3, spike_times = [], spike_count = 0, st_duration = 0,
           mode = ''burst'', firing_rate = 0,
           parameters = no_kwargs\<lparr>kw_spikes_per_burst := Some 3\<rparr>\<rparr>
   \<and> raised (generate_spike_train \<lparr>rng = steady 0 0\<rparr> 3 20 (- 1) ''burst''
       (no_kwargs\<lparr>kw_spikes_per_burst := Some 3\<rparr>)) = Some NegativeDimensions
   \<and> map_option (map neuron_id)
        (returned (generate_population \<lparr>rng = steady 0 0\<rparr> 3 (50, 5) 1 ''poisson'')) =
       Some [0, 1, 2]
   \<and> map_option (map (\<lambda>tr. (neuron_id tr, spike_times tr)))
        (returned (generate_population \<lparr>rng = steady 0 0\<rparr> 2 (50, 5) (- 1) ''refractory'')) =
       Some [(0, []), (1, [])]
   \<and> raised (generate_population \<lparr>rng = steady 0 0\<rparr> 3 (50, 5) (- 1) ''poisson'') =
       Some NegativeDimensions
   \<and> raised (generate_population \<lparr>rng = steady 0 0\<rparr> 3 (50, 5) 1 ''burst'') = Some TypeError"
proof -
  let ?g = "\<lparr>rng = steady 0 0\<rparr>"
  note a = C3_no_range_validation [where d = None and duration = 0 and self = ?g and nid = 3
      and rate = 20 and r = None and spb = 3 and iv = None]
  note b = C3_no_range_validation [where d = "Some (1/100)" and duration = "- 1" and self = ?g
      and nid = 3 and rate = 20 and r = None and spb = 3 and iv = None]
  note c = C3_no_range_validation [where d = None and duration = "- 1" and self = ?g and nid = 3
      and rate = 20 and r = None and spb = 3 and iv = None and md = "''refractory''" and n = 2
      and low = 50 and high = 5]
  note d = C3_no_range_validation [where d = None and duration = 1 and self = ?g and nid = 3
      and rate = 20 and r = None and spb = 3 and iv = None
      and md = "''poisson''" and n = 3 and low = 50 and high = 5]
  note e = C3_no_range_validation [where d = None and duration = "- 1" and self = ?g and nid = 3
      and rate = 20 and r = None and spb = 3 and iv = None
      and md = "''poisson''" and n = 3 and low = 50 and high = 5]
  have k: "no_kwargs\<lparr>kw_dt := None\<rparr> = no_kwargs"
    "no_kwargs\<lparr>kw_refractory_period := None, kw_dt := None\<rparr> = no_kwargs"
    "no_kwargs\<lparr>kw_spikes_per_burst := Some 3, kw_intraburst_interval := None, kw_dt := None\<rparr>
       = no_kwargs\<lparr>kw_spikes_per_burst := Some 3\<rparr>"
    by (simp_all add: no_kwargs_def)
  have 1: "returned (generate_spike_train ?g 3 20 0 ''poisson'' no_kwargs) =
     Some \<lparr>neuron_id = 3, spike_times = [], spike_count = 0, st_duration = 0,
           mode = ''poisson'', firing_rate = 0, parameters = no_kwargs\<rparr>"
    using a by (simp add: k or_default_def returned_def)
  have 2: "raised (generate_spike_train ?g 3 20 (- 1) ''poisson''
       (no_kwargs\<lparr>kw_dt := Some (1/100)\<rparr>)) = Some NegativeDimensions"
    using b by (simp add: or_default_def raised_def)
  have 3: "returned (generate_spike_train ?g 3 20 (- 1) ''refractory'' no_kwargs) =
     Some \<lparr>neuron_id = 3, spike_times = [], spike_count = 0, st_duration = - 1,
           mode = ''refractory'', firing_rate = 0, parameters = no_kwargs\<rparr>"
    using c by (simp add: k returned_def)
  have 4: "returned (generate_spike_train ?g 3 20 0 ''burst''
       (no_kwargs\<lparr>kw_spikes_per_burst := Some 3\<rparr>)) =
     Some \<lparr>neuron_id = 3, spike_times = [], spike_count = 0, st_duration = 0,
           mode = ''burst'', firing_rate = 0,
           parameters = no_kwargs\<lparr>kw_spikes_per_burst := Some 3\<rparr>\<rparr>"
    using a by (simp add: k or_default_def returned_def)
  have 5: "raised (generate_spike_train ?g 3 20 (- 1) ''burst''
       (no_kwargs\<lparr>kw_spikes_per_burst := Some 3\<rparr>)) = Some NegativeDimensions"
    using c by (simp add: k or_default_def raised_def)
  from d have "\<exists>pop s. generate_population ?g 3 (50, 5) 1 ''poisson'' = Returns pop s
      \<and> map neuron_id pop = map int [0..<nat 3]"
    by simp blast
  then obtain pop s where
    "generate_population ?g 3 (50, 5) 1 ''poisson'' = Returns pop s"
    "map neuron_id pop = map int [0..<nat 3]"
    by blast
  then have 6: "map_option (map neuron_id)
        (returned (generate_population ?g 3 (50, 5) 1 ''poisson'')) = Some [0, 1, 2]"
    by (simp add: returned_def upt_nat_3)
  from c have "\<exists>pop s. generate_population ?g 2 (50, 5) (- 1) ''refractory'' = Returns pop s
      \<and> map neuron_id pop = map int [0..<nat 2] \<and> (\<forall>tr \<in> set pop. spike_times tr = [])"
    by simp blast
  then obtain pop' s' where p: "generate_population ?g 2 (50, 5) (- 1) ''refractory'' = Returns pop' s'"
    "map neuron_id pop' = map int [0..<nat 2]"
    "\<forall>tr \<in> set pop'. spike_times tr = []"
    by blast
  have "map (\<lambda>tr. (neuron_id tr, spike_times tr)) pop' = map (\<lambda>tr. (neuron_id tr, [])) pop'"
    using p(3) by simp
  also have "\<dots> = map (\<lambda>i. (i, [])) (map neuron_id pop')"
    by simp
  finally have 7: "map_option (map (\<lambda>tr. (neuron_id tr, spike_times tr)))
        (returned (generate_population ?g 2 (50, 5) (- 1) ''refractory'')) =
       Some [(0, []), (1, [])]"
    using p(1,2) by (simp add: returned_def upt_nat_2)
  have 8: "raised (generate_population ?g 3 (50, 5) (- 1) ''poisson'') = Some NegativeDimensions"
    using e by (simp add: raised_def)
  have 9: "raised (generate_population ?g 3 (50, 5) 1 ''burst'') = Some TypeError"
    using d by (simp add: raised_def)
  from 1 2 3 4 5 6 7 8 9 show ?thesis by simp
qed

text \<open>
  A duration of \<open>0\<close> and a rate range \<open>(50, 5)\<close>: both calls return.
\<close>

theorem C3_counterexample:
  "returned (generate_spike_train \<lparr>rng = steady 0 0\<rparr> 3 20 0 ''poisson'' no_kwargs) =
     Some \<lparr>neuron_id = 3, spike_times = [], spike_count = 0, st_duration = 0,
           mode = ''poisson'', firing_rate = 0, parameters = no_kwargs\<rparr>
   \<and> raised (generate_spike_train \<lparr>rng = steady 0 0\<rparr> 3 20 0 ''poisson'' no_kwargs) = None
   \<and> map_option (map (\<lambda>tr. (neuron_id tr, spike_times tr)))
        (returned (generate_population \<lparr>rng = steady (1/2) 0\<rparr> 2 (50, 5) (1/500) ''poisson'')) =
       Some [(0, []), (1, [])]"
  by (simp add: generate_spike_train_def dispatch_mode_def no_kwargs_def or_default_def
        poisson_spikes_def random_samples_def py_int_def Let_def returned_def raised_def
        generate_population_def uniform_def steady_def skip_doubles_def upt_nat_2)

section \<open>The weights a mixed signal uses\<close>

lemma skip_doubles_add: "skip_doubles m (skip_doubles n g) = skip_doubles (n + m) g"
  by (simp add: skip_doubles_def ac_simps)

lemma advance_simps [simp]:
  "advance 0 self = self"
  "advance m (advance n self) = advance (n + m) self"
  "sampling_rate (advance n self) = sampling_rate self"
  "gauss (eeg_rng (advance n self)) = gauss (eeg_rng self)"
  by (simp_all add: advance_def skip_doubles_add) (simp add: skip_doubles_def)

lemma generate_band_returned:
  assumes "generate_band self b d a = Returns sig s"
  shows "s = advance 9 self"
    and "length sig = nat (py_int (d * sampling_rate self))"
    and "sig = map ((*) a) (unit_band self b d)"
  using assms
  by (auto simp: generate_band_def unit_band_def uniform_n_def advance_def skip_doubles_add
        Let_def split: option.splits if_splits)

lemma add_bands_closed_form:
  assumes "add_bands self d w sig0 = Returns sig s"
    and "length sig0 = nat (py_int (d * sampling_rate self))"
  shows "length sig = length sig0
         \<and> s = advance (9 * length (used_amplitudes w)) self
         \<and> (\<forall>k < length sig0. sig ! k = sig0 ! k +
               (\<Sum>j < length (used_amplitudes w).
                   snd (used_amplitudes w ! j) *
                   unit_band (advance (9 * j) self) (fst (used_amplitudes w ! j)) d ! k))"
  using assms
proof (induction w arbitrary: self sig0)
  case Nil
  then show ?case by (simp add: used_amplitudes_def)
next
  case (Cons p w)
  obtain b a where p: "p = (b, a)" by (cases p)
  show ?case
  proof (cases "a > 0")
    case False
    then have u: "used_amplitudes (p # w) = used_amplitudes w"
      by (simp add: p used_amplitudes_def)
    from False Cons.prems(1) have "add_bands self d w sig0 = Returns sig s"
      by (simp add: p)
    from Cons.IH [OF this Cons.prems(2)] show ?thesis
      unfolding u .
  next
    case True
    then have u: "used_amplitudes (p # w) = (b, a) # used_amplitudes w"
      by (simp add: p used_amplitudes_def)
    from True Cons.prems(1) obtain bs s1 where
      g: "generate_band self b d a = Returns bs s1"
      and r: "add_bands s1 d w (map (\<lambda>(x, y). x + y) (zip sig0 bs)) = Returns sig s"
      by (auto simp: p split: result.splits)
    note gb = generate_band_returned [OF g]
    let ?sig1 = "map (\<lambda>(x, y). x + y) (zip sig0 bs)"
    have l1: "length ?sig1 = length sig0" using gb(2) Cons.prems(2) by simp
    then have l1': "length ?sig1 = nat (py_int (d * sampling_rate s1))"
      using Cons.prems(2) gb(1) by simp
    note ih = Cons.IH [OF r l1']
    let ?u = "used_amplitudes w"
    have len: "length sig = length sig0" using ih l1 by simp
    have st: "s = advance (9 * length (used_amplitudes (p # w))) self"
      using ih gb(1) by (simp add: u)
    have val: "sig ! k = sig0 ! k +
               (\<Sum>j < length (used_amplitudes (p # w)).
                   snd (used_amplitudes (p # w) ! j) *
                   unit_band (advance (9 * j) self) (fst (used_amplitudes (p # w) ! j)) d ! k)"
      if k: "k < length sig0" for k
    proof -
      have kb: "k < length bs" using k gb(2) Cons.prems(2) by simp
      have "sig ! k = ?sig1 ! k +
               (\<Sum>j < length ?u. snd (?u ! j) * unit_band (advance (9 * j) s1) (fst (?u ! j)) d ! k)"
        using ih k l1 by simp
      also have "?sig1 ! k = sig0 ! k + a * unit_band self b d ! k"
        using k kb gb(3) by simp
      also have "(\<Sum>j < length ?u. snd (?u ! j) * unit_band (advance (9 * j) s1) (fst (?u ! j)) d ! k)
          = (\<Sum>j < length ?u. snd (?u ! j) * unit_band (advance (9 * Suc j) self) (fst (?u ! j)) d ! k)"
        by (simp add: gb(1) add.commute)
      finally have e: "sig ! k = sig0 ! k + a * unit_band self b d ! k +
          (\<Sum>j < length ?u. snd (?u ! j) * unit_band (advance (9 * Suc j) self) (fst (?u ! j)) d ! k)" .
      let ?F = "\<lambda>j. snd (((b, a) # ?u) ! j) *
                  unit_band (advance (9 * j) self) (fst (((b, a) # ?u) ! j)) d ! k"
      have "(\<Sum>j < length ((b, a) # ?u). ?F j) = ?F 0 + (\<Sum>j < length ?u. ?F (Suc j))"
        by (simp only: length_Cons sum.lessThan_Suc_shift)
      also have "\<dots> = a * unit_band self b d ! k +
          (\<Sum>j < length ?u. snd (?u ! j) * unit_band (advance (9 * Suc j) self) (fst (?u ! j)) d ! k)"
        by simp
      finally show ?thesis
        using e by (simp only: u add.assoc)
    qed
    from len st val show ?thesis by blast
  qed
qed

lemma mixed_signal_closed_form:
  assumes "generate_mixed_signal self d band_weights nl = Returns sig s"
    and "bw = (case band_weights of
                 None \<Rightarrow> map (\<lambda>(band, range). (band, 1)) BANDS
               | Some w \<Rightarrow> w)"
    and "sum_list (map snd bw) \<noteq> 0"
    and "u = used_amplitudes (map (\<lambda>(k, v). (k, v / sum_list (map snd bw))) bw)"
  shows "length sig = nat (py_int (d * sampling_rate self))"
    and "\<forall>k < length sig. sig ! k =
            (\<Sum>j < length u. snd (u ! j) * unit_band (advance (9 * j) self) (fst (u ! j)) d ! k)
            + (if nl > 0 then nl * gauss (eeg_rng self) k else 0)"
proof -
  let ?w = "map (\<lambda>(k, v). (k, v / sum_list (map snd bw))) bw"
  let ?n = "nat (py_int (d * sampling_rate self))"
  have nw: "normalize_weights bw = Inr ?w"
    using assms(3) by (rule normalize_weights_total(1))
  from assms(1) nw obtain sig1 s1 where
    a: "add_bands self d ?w (replicate ?n 0) = Returns sig1 s1"
    and f: "sig = (if nl > 0 then map (\<lambda>(a, b). a + b) (zip sig1 (fst (normal (eeg_rng s1) 0 nl ?n)))
                   else sig1)"
    by (auto simp: generate_mixed_signal_def assms(2) [symmetric] Let_def
          split: if_splits result.splits prod.splits)
  have "length (replicate ?n (0::real)) = ?n" by simp
  note c = add_bands_closed_form [OF a this]
  from c have l1: "length sig1 = ?n" by simp
  from c have s1: "s1 = advance (9 * length u) self" by (simp add: assms(4))
  from c have v1: "\<forall>k < ?n. sig1 ! k =
      (\<Sum>j < length u. snd (u ! j) * unit_band (advance (9 * j) self) (fst (u ! j)) d ! k)"
    by (simp add: assms(4))
  show "length sig = ?n"
    using f l1 by (simp add: normal_def)
  then show "\<forall>k < length sig. sig ! k =
            (\<Sum>j < length u. snd (u ! j) * unit_band (advance (9 * j) self) (fst (u ! j)) d ! k)
            + (if nl > 0 then nl * gauss (eeg_rng self) k else 0)"
    using f l1 v1 s1 by (simp add: normal_def)
qed


lemma mixed_signal_returns:
  assumes "bw = (case band_weights of
                 None \<Rightarrow> map (\<lambda>(band, range). (band, 1)) BANDS
               | Some w \<Rightarrow> w)"
    and "sum_list (map snd bw) \<noteq> 0"
    and "fst ` set bw \<subseteq> fst ` set BANDS"
    and "0 \<le> py_int (d * sampling_rate self)"
  shows "\<exists>sig s. generate_mixed_signal self d band_weights nl = Returns sig s"
proof -
  let ?w = "map (\<lambda>(k, v). (k, v / sum_list (map snd bw))) bw"
  let ?n = "nat (py_int (d * sampling_rate self))"
  have nw: "normalize_weights bw = Inr ?w"
    using assms(2) by (rule normalize_weights_total(1))
  have "fst ` set ?w = fst ` set bw"
    by (force simp: image_iff)
  with assms(3) have "\<forall>b \<in> fst ` set ?w. map_of BANDS b \<noteq> None"
    by (auto simp only: map_of_eq_None_iff)
  from add_bands_returns [OF this assms(4), of "replicate ?n 0"]
  obtain sig1 s1 where "add_bands self d ?w (replicate ?n 0) = Returns sig1 s1"
    by auto
  with nw assms(4) show ?thesis
    by (simp add: generate_mixed_signal_def assms(1) [symmetric] Let_def normal_def)
qed

text \<open>
  Claim C8, as the code has it.  Take a call of \<open>generate_mixed_signal\<close> whose
  weights \<open>bw\<close> (the five bands at weight \<open>1\<close> when \<open>band_weights\<close> is omitted) have
  a non-zero total, and let \<open>w\<close> be \<open>bw\<close> with every weight divided by that total.
  Then the weights of \<open>w\<close> sum to \<open>1\<close> (each is \<open>1/5\<close> when the weights are omitted);
  \<open>generate_band\<close> returns its unit signal times the amplitude it is given; and
  every sample of the signal the call returns is the sum, over the bands \<open>u\<close> of \<open>w\<close>
  with a positive weight, of that weight times the band's unit signal, plus the noise.
  The weights of \<open>u\<close> sum to \<open>1\<close> when no input weight is negative.  The call
  returns whenever the bands are known and the number of samples is not negative.
\<close>

theorem C8_normalized_weights:
  assumes "bw = (case band_weights of
                   None \<Rightarrow> map (\<lambda>(band, range). (band, 1)) BANDS
                 | Some w \<Rightarrow> w)"
    and "sum_list (map snd bw) \<noteq> 0"
    and "w = map (\<lambda>(k, v). (k, v / sum_list (map snd bw))) bw"
    and "u = used_amplitudes w"
  shows "sum_list (map snd w) = 1
     \<and> (band_weights = None \<longrightarrow>
          w = [(''delta'', 1/5), (''theta'', 1/5), (''alpha'', 1/5), (''beta'', 1/5),
               (''gamma'', 1/5)])
     \<and> ((\<forall>v \<in> snd ` set bw. 0 \<le> v) \<longrightarrow> sum_list (map snd u) = 1)
     \<and> (\<forall>a sig s. generate_band self b duration a = Returns sig s \<longrightarrow>
            sig = map ((*) a) (unit_band self b duration))
     \<and> (\<forall>sig s. generate_mixed_signal self duration band_weights noise_level = Returns sig s \<longrightarrow>
            length sig = nat (py_int (duration * sampling_rate self))
            \<and> (\<forall>k < length sig. sig ! k =
                  (\<Sum>j < length u. snd (u ! j) *
                      unit_band (advance (9 * j) self) (fst (u ! j)) duration ! k)
                  + (if noise_level > 0 then noise_level * gauss (eeg_rng self) k else 0)))
     \<and> (fst ` set bw \<subseteq> fst ` set BANDS \<and> 0 \<le> py_int (duration * sampling_rate self) \<longrightarrow>
            (\<exists>sig s. generate_mixed_signal self duration band_weights noise_level = Returns sig s))"
proof -
  have 1: "sum_list (map snd w) = 1"
    unfolding assms(3) using assms(2) by (rule normalize_weights_total(2))
  have 2: "w = [(''delta'', 1/5), (''theta'', 1/5), (''alpha'', 1/5), (''beta'', 1/5),
               (''gamma'', 1/5)]" if "band_weights = None"
    using that by (simp add: assms(1,3) BANDS_def)
  have 3: "sum_list (map snd u) = 1" if nn: "\<forall>v \<in> snd ` set bw. 0 \<le> v"
  proof -
    have "0 < sum_list (map snd bw)" using nn assms(2) by (intro sum_list_nonneg_pos) auto
    then have "\<forall>v \<in> snd ` set w. 0 \<le> v" using nn by (auto simp: assms(3))
    then have "sum_list (map snd u) = sum_list (map snd w)"
      unfolding assms(4) by (rule used_amplitudes_sum)
    with 1 show ?thesis by simp
  qed
  have 4: "sig = map ((*) a) (unit_band self b duration)"
    if "generate_band self b duration a = Returns sig s" for a sig s
    using that by (rule generate_band_returned(3))
  have u: "u = used_amplitudes (map (\<lambda>(k, v). (k, v / sum_list (map snd bw))) bw)"
    by (simp add: assms(3,4))
  have 5: "length sig = nat (py_int (duration * sampling_rate self))
            \<and> (\<forall>k < length sig. sig ! k =
                  (\<Sum>j < length u. snd (u ! j) *
                      unit_band (advance (9 * j) self) (fst (u ! j)) duration ! k)
                  + (if noise_level > 0 then noise_level * gauss (eeg_rng self) k else 0))"
    if r: "generate_mixed_signal self duration band_weights noise_level = Returns sig s" for sig s
    using mixed_signal_closed_form [OF r assms(1,2) u] by simp
  have 6: "\<exists>sig s. generate_mixed_signal self duration band_weights noise_level = Returns sig s"
    if "fst ` set bw \<subseteq> fst ` set BANDS \<and> 0 \<le> py_int (duration * sampling_rate self)"
    using that assms(1,2) by (intro mixed_signal_returns [where bw = bw]) simp_all
  from 1 2 3 4 5 6 show ?thesis by blast
qed

theorem C8_witness:
  "sum_list (map snd (used_amplitudes [(''alpha'', 3/4), (''theta'', 1/4 :: real)])) = 1
   \<and> (\<exists>sig s. generate_mixed_signal example_eeg (1/250) (Some [(''alpha'', 3), (''theta'', 1)]) (1/5)
               = Returns sig s
        \<and> length sig = 1
        \<and> sig ! 0 = 3/4 * unit_band example_eeg ''alpha'' (1/250) ! 0
                   + 1/4 * unit_band (advance 9 example_eeg) ''theta'' (1/250) ! 0)
   \<and> (\<exists>sig s. generate_mixed_signal example_eeg (1/250) None (1/5) = Returns sig s
        \<and> length sig = 1
        \<and> sig ! 0 = 1/5 * unit_band example_eeg ''delta'' (1/250) ! 0
                   + 1/5 * unit_band (advance 9 example_eeg) ''theta'' (1/250) ! 0
                   + 1/5 * unit_band (advance 18 example_eeg) ''alpha'' (1/250) ! 0
                   + 1/5 * unit_band (advance 27 example_eeg) ''beta'' (1/250) ! 0
                   + 1/5 * unit_band (advance 36 example_eeg) ''gamma'' (1/250) ! 0)"
proof -
  let ?in = "[(''alpha'', 3), (''theta'', 1 :: real)]"
  let ?w = "[(''alpha'', 3/4), (''theta'', 1/4 :: real)]"
  let ?d = "[(''delta'', 1/5), (''theta'', 1/5), (''alpha'', 1/5), (''beta'', 1/5),
             (''gamma'', 1/5 :: real)]"
  have n: "nat (py_int (1/250 * sampling_rate example_eeg)) = 1"
          "0 \<le> py_int (1/250 * sampling_rate example_eeg)"
    by (simp_all add: example_eeg_def py_int_def)
  have g: "gauss (eeg_rng example_eeg) k = 0" for k
    by (simp add: example_eeg_def steady_def)
  have p: "?in = (case Some ?in of
                   None \<Rightarrow> map (\<lambda>(band, range). (band, 1)) BANDS
                 | Some w \<Rightarrow> w)"
      "sum_list (map snd ?in) \<noteq> 0"
      "?w = map (\<lambda>(k, v). (k, v / sum_list (map snd ?in))) ?in"
      "?w = used_amplitudes ?w"
    by (simp_all add: used_amplitudes_def)
  note a = C8_normalized_weights [OF p, where self = example_eeg and duration = "1/250"
      and noise_level = "1/5"]
  have "fst ` set ?in \<subseteq> fst ` set BANDS" by (simp add: BANDS_def)
  with a n(2) obtain sig s where
    r: "generate_mixed_signal example_eeg (1/250) (Some ?in) (1/5) = Returns sig s"
    by blast
  with a have l: "length sig = nat (py_int (1/250 * sampling_rate example_eeg))"
    and v: "\<forall>k < length sig. sig ! k =
                  (\<Sum>j < length ?w. snd (?w ! j) *
                      unit_band (advance (9 * j) example_eeg) (fst (?w ! j)) (1/250) ! k)
                  + (if (1/5 :: real) > 0 then 1/5 * gauss (eeg_rng example_eeg) k else 0)"
    by blast+
  from l n have l1: "length sig = 1" by simp
  with v have "sig ! 0 = 3/4 * unit_band example_eeg ''alpha'' (1/250) ! 0
                   + 1/4 * unit_band (advance 9 example_eeg) ''theta'' (1/250) ! 0"
    by (simp add: g)
  with r l1 have first: "\<exists>sig s. generate_mixed_signal example_eeg (1/250) (Some ?in) (1/5)
               = Returns sig s
        \<and> length sig = 1
        \<and> sig ! 0 = 3/4 * unit_band example_eeg ''alpha'' (1/250) ! 0
                   + 1/4 * unit_band (advance 9 example_eeg) ''theta'' (1/250) ! 0"
    by blast
  let ?b = "map (\<lambda>(band, range). (band, 1 :: real)) BANDS"
  have q: "?b = (case None of
                   None \<Rightarrow> map (\<lambda>(band, range). (band, 1)) BANDS
                 | Some w \<Rightarrow> w)"
      "sum_list (map snd ?b) \<noteq> 0"
      "?d = map (\<lambda>(k, v). (k, v / sum_list (map snd ?b))) ?b"
      "?d = used_amplitudes ?d"
    by (simp_all add: used_amplitudes_def BANDS_def)
  note b = C8_normalized_weights [OF q, where self = example_eeg and duration = "1/250"
      and noise_level = "1/5"]
  have "fst ` set ?b \<subseteq> fst ` set BANDS" by (simp add: BANDS_def)
  with b n(2) obtain sig' s' where
    r': "generate_mixed_signal example_eeg (1/250) None (1/5) = Returns sig' s'"
    by blast
  with b have l': "length sig' = nat (py_int (1/250 * sampling_rate example_eeg))"
    and v': "\<forall>k < length sig'. sig' ! k =
                  (\<Sum>j < length ?d. snd (?d ! j) *
                      unit_band (advance (9 * j) example_eeg) (fst (?d ! j)) (1/250) ! k)
                  + (if (1/5 :: real) > 0 then 1/5 * gauss (eeg_rng example_eeg) k else 0)"
    by blast+
  from l' n have l1': "length sig' = 1" by simp
  with v' have "sig' ! 0 = 1/5 * unit_band example_eeg ''delta'' (1/250) ! 0
                   + 1/5 * unit_band (advance 9 example_eeg) ''theta'' (1/250) ! 0
                   + 1/5 * unit_band (advance 18 example_eeg) ''alpha'' (1/250) ! 0
                   + 1/5 * unit_band (advance 27 example_eeg) ''beta'' (1/250) ! 0
                   + 1/5 * unit_band (advance 36 example_eeg) ''gamma'' (1/250) ! 0"
    by (simp add: g)
  with r' l1' have "\<exists>sig s. generate_mixed_signal example_eeg (1/250) None (1/5) = Returns sig s
        \<and> length sig = 1
        \<and> sig ! 0 = 1/5 * unit_band example_eeg ''delta'' (1/250) ! 0
                   + 1/5 * unit_band (advance 9 example_eeg) ''theta'' (1/250) ! 0
                   + 1/5 * unit_band (advance 18 example_eeg) ''alpha'' (1/250) ! 0
                   + 1/5 * unit_band (advance 27 example_eeg) ''beta'' (1/250) ! 0
                   + 1/5 * unit_band (advance 36 example_eeg) ''gamma'' (1/250) ! 0"
    by blast
  moreover from a have "sum_list (map snd ?w) = 1"
    by simp
  then have "sum_list (map snd (used_amplitudes ?w)) = 1"
    using p(4) by simp
  ultimately show ?thesis using first by blast
qed

end
